theory Spec2Isabelle
  imports Main "HOL-Library.Word" "HOL-Library.AList"
begin

unbundle bit_operations_syntax

section \<open>Integers\<close>

text \<open>
  Go's \<open>int\<close> is modelled as a mathematical integer; where the source adds, subtracts or
  negates, the result is wrapped to the 64-bit two's complement range by \<open>wrap64\<close>.
  The bitwise operators \<open>&\<close> and \<open>>>\<close> (arithmetic shift on a signed operand) are
  \<open>AND\<close> and \<open>drop_bit\<close> on \<open>int\<close>, which never leave the range of their operands.
\<close>

definition wrap64 :: "int \<Rightarrow> int" where
  "wrap64 i = signed_take_bit 63 i"

text \<open>The conversion \<open>int32(v)\<close>.\<close>

definition int32 :: "int \<Rightarrow> int" where
  "int32 i = signed_take_bit 31 i"

text \<open>Go's \<open>%\<close> truncates towards zero: the remainder carries the sign of the dividend.\<close>

definition go_rem :: "int \<Rightarrow> int \<Rightarrow> int" where
  "go_rem a b = sgn a * (\<bar>a\<bar> mod \<bar>b\<bar>)"

section \<open>Strings\<close>

text \<open>
  A Go string is a sequence of bytes; the functions of package \<open>strings\<close> used by the
  parser with ASCII separators work on bytes and are defined here. \<open>Index\<close> and
  \<open>LastIndex\<close> return \<open>-1\<close> when the substring is absent.
\<close>

fun HasPrefix :: "string \<Rightarrow> string \<Rightarrow> bool" where
  "HasPrefix s [] = True"
| "HasPrefix [] (p # pre) = False"
| "HasPrefix (ch # s) (p # pre) = (ch = p \<and> HasPrefix s pre)"

text \<open>The search from position \<open>i\<close> on: the first position, and the last one.\<close>

fun indexFrom :: "string \<Rightarrow> string \<Rightarrow> int \<Rightarrow> int" where
  "indexFrom [] sub i = (if sub = [] then i else -1)"
| "indexFrom (ch # s) sub i = (if HasPrefix (ch # s) sub then i else indexFrom s sub (i + 1))"

definition Index :: "string \<Rightarrow> string \<Rightarrow> int" where
  "Index s sub = indexFrom s sub 0"

fun lastIndexFrom :: "string \<Rightarrow> string \<Rightarrow> int \<Rightarrow> int \<Rightarrow> int" where
  "lastIndexFrom [] sub i found = (if sub = [] then i else found)"
| "lastIndexFrom (ch # s) sub i found =
     lastIndexFrom s sub (i + 1) (if HasPrefix (ch # s) sub then i else found)"

definition LastIndex :: "string \<Rightarrow> string \<Rightarrow> int" where
  "LastIndex s sub = lastIndexFrom s sub 0 (-1)"

definition Contains :: "string \<Rightarrow> string \<Rightarrow> bool" where
  "Contains s sub = (Index s sub \<ge> 0)"

definition TrimPrefix :: "string \<Rightarrow> string \<Rightarrow> string" where
  "TrimPrefix s pre = (if HasPrefix s pre then drop (length pre) s else s)"

text \<open>\<open>strings.Trim(s, cutset)\<close> for an ASCII cutset.\<close>

definition Trim :: "string \<Rightarrow> string \<Rightarrow> string" where
  "Trim s cutset = rev (dropWhile (\<lambda>ch. ch \<in> set cutset) (rev (dropWhile (\<lambda>ch. ch \<in> set cutset) s)))"

text \<open>\<open>strings.Replace(s, old, new, 1)\<close>: the first occurrence only.\<close>

definition Replace1 :: "string \<Rightarrow> string \<Rightarrow> string \<Rightarrow> string" where
  "Replace1 s old new = (let i = Index s old in
      if i < 0 then s else take (nat i) s @ new @ drop (nat i + length old) s)"

text \<open>
  \<open>strings.Split(s, sep)\<close> for a non-empty separator: \<open>cur\<close> is the piece being
  read. For an empty separator (never passed by the parser) the whole string is one piece.
\<close>

function splitFrom :: "string \<Rightarrow> string \<Rightarrow> string \<Rightarrow> string list" where
  "splitFrom sep cur [] = [cur]"
| "splitFrom sep cur (ch # s) =
     (if sep \<noteq> [] \<and> HasPrefix (ch # s) sep
      then cur # splitFrom sep [] (drop (length sep - 1) s)
      else splitFrom sep (cur @ [ch]) s)"
  by pat_completeness auto
termination
  by (relation "measure (\<lambda>(sep, cur, s). length s)") auto

definition Split :: "string \<Rightarrow> string \<Rightarrow> string list" where
  "Split s sep = splitFrom sep [] s"

text \<open>\<open>strings.SplitN(s, sep, 2)\<close>.\<close>

definition SplitN2 :: "string \<Rightarrow> string \<Rightarrow> string list" where
  "SplitN2 s sep = (let i = Index s sep in
      if i < 0 then [s] else [take (nat i) s, drop (nat i + length sep) s])"

text \<open>
  The slice expression \<open>s[lo:hi]\<close>, which panics (here \<open>None\<close>) unless
  \<open>0 \<le> lo \<le> hi \<le> len(s)\<close>.
\<close>

definition slice :: "string \<Rightarrow> int \<Rightarrow> int \<Rightarrow> string option" where
  "slice s lo hi = (if 0 \<le> lo \<and> lo \<le> hi \<and> hi \<le> int (length s)
                    then Some (take (nat hi - nat lo) (drop (nat lo) s)) else None)"

section \<open>Regular expressions and the standard library\<close>

text \<open>
  The regular expressions of the parser use literals, one character class at a time
  (\<open>[^c]\<close>, \<open>\s\<close>, \<open>\w\<close>, \<open>\d\<close>), the repetitions \<open>+\<close> and \<open>*\<close> of a class, and
  capture groups that do not nest. A pattern is the list of its atoms, \<open>GOpen\<close> and
  \<open>GClose\<close> standing for the parentheses of a group.
\<close>

datatype cls = Not char | Space | Word | Digit

datatype atom = Lit string | One cls | Plus cls | Star cls | GOpen | GClose

type_synonym regex = "atom list"

text \<open>
  What the parser takes from Go's standard library and from floating point arithmetic.
  The parser is a function of such a library \<open>L\<close>, and every theorem below holds for each
  library: none depends on how a regular expression matches, on which strings are numbers
  or on the value of a floating point operation. \<open>'f\<close> is the type \<open>float64\<close>.
  \<open>Atoi\<close>, \<open>ParseInt32\<close> (which is \<open>strconv.ParseInt(s, 10, 32)\<close>) and \<open>ParseFloat\<close>
  return the value and whether the returned error is nil.
\<close>

record 'f golib =
  TrimSpace :: "string \<Rightarrow> string"
  FindStringSubmatch :: "regex \<Rightarrow> string \<Rightarrow> string list"
  FindAllStringSubmatch :: "regex \<Rightarrow> string \<Rightarrow> string list list"
  Atoi :: "string \<Rightarrow> int \<times> bool"
  ParseInt32 :: "string \<Rightarrow> int \<times> bool"
  ParseFloat :: "string \<Rightarrow> 'f \<times> bool"
  Itoa :: "int \<Rightarrow> string"
  filepathJoin :: "string \<Rightarrow> string \<Rightarrow> string"
  f_of_int :: "int \<Rightarrow> 'f"
  f_to_int :: "'f \<Rightarrow> int"
  f_neg :: "'f \<Rightarrow> 'f"
  f_add :: "'f \<Rightarrow> 'f \<Rightarrow> 'f"
  f_sub :: "'f \<Rightarrow> 'f \<Rightarrow> 'f"
  f_div :: "'f \<Rightarrow> 'f \<Rightarrow> 'f"
  f_lt :: "'f \<Rightarrow> 'f \<Rightarrow> bool"
  f_eq :: "'f \<Rightarrow> 'f \<Rightarrow> bool"

text \<open>The patterns of parser.go, each with its Go source text.\<close>

definition re_type :: regex where \<comment> \<open>\<^verbatim>\<open>type="([^"]+)"\<close>\<close>
  "re_type = [Lit ''type=\"'', GOpen, Plus (Not (CHR ''\"'')), GClose, Lit ''\"'']"

definition re_path :: regex where \<comment> \<open>\<^verbatim>\<open>path="([^"]+)"\<close>\<close>
  "re_path = [Lit ''path=\"'', GOpen, Plus (Not (CHR ''\"'')), GClose, Lit ''\"'']"

definition re_sid :: regex where \<comment> \<open>\<^verbatim>\<open>\sid="([^"]+)"\<close>\<close>
  "re_sid = [One Space, Lit ''id=\"'', GOpen, Plus (Not (CHR ''\"'')), GClose, Lit ''\"'']"

definition re_uid :: regex where \<comment> \<open>\<^verbatim>\<open>uid="([^"]+)"\<close>\<close>
  "re_uid = [Lit ''uid=\"'', GOpen, Plus (Not (CHR ''\"'')), GClose, Lit ''\"'']"

definition re_id :: regex where \<comment> \<open>\<^verbatim>\<open>id="([^"]+)"\<close>\<close>
  "re_id = [Lit ''id=\"'', GOpen, Plus (Not (CHR ''\"'')), GClose, Lit ''\"'']"

definition re_shape :: regex where \<comment> \<open>\<^verbatim>\<open>type="(\w+Shape2D)"\<close>\<close>
  "re_shape = [Lit ''type=\"'', GOpen, Plus Word, Lit ''Shape2D'', GClose, Lit ''\"'']"

definition re_layer :: regex where \<comment> \<open>\<^verbatim>\<open>layer_(\d+)/\<close>\<close>
  "re_layer = [Lit ''layer_'', GOpen, Plus Digit, GClose, Lit ''/'']"

definition re_extres :: regex where \<comment> \<open>\<^verbatim>\<open>ExtResource\("([^"]+)"\)\<close>\<close>
  "re_extres = [Lit ''ExtResource(\"'', GOpen, Plus (Not (CHR ''\"'')), GClose, Lit ''\")'']"

definition re_subres :: regex where \<comment> \<open>\<^verbatim>\<open>SubResource\("([^"]+)"\)\<close>\<close>
  "re_subres = [Lit ''SubResource(\"'', GOpen, Plus (Not (CHR ''\"'')), GClose, Lit ''\")'']"

definition re_sources :: regex where \<comment> \<open>\<^verbatim>\<open>sources/(\d+)\<close>\<close>
  "re_sources = [Lit ''sources/'', GOpen, Plus Digit, GClose]"

definition re_packed :: regex where \<comment> \<open>\<^verbatim>\<open>PackedVector2Array\(([^)]+)\)\<close>\<close>
  "re_packed = [Lit ''PackedVector2Array('', GOpen, Plus (Not (CHR '')'')), GClose, Lit '')'']"

definition re_name :: regex where \<comment> \<open>\<^verbatim>\<open>name="([^"]+)"\<close>\<close>
  "re_name = [Lit ''name=\"'', GOpen, Plus (Not (CHR ''\"'')), GClose, Lit ''\"'']"

definition re_parent :: regex where \<comment> \<open>\<^verbatim>\<open>parent="([^"]+)"\<close>\<close>
  "re_parent = [Lit ''parent=\"'', GOpen, Plus (Not (CHR ''\"'')), GClose, Lit ''\"'']"

definition re_vector2 :: regex where \<comment> \<open>\<^verbatim>\<open>Vector2\(([^,]+),\s*([^)]+)\)\<close>\<close>
  "re_vector2 = [Lit ''Vector2('', GOpen, Plus (Not (CHR '','')), GClose, Lit '','', Star Space,
                 GOpen, Plus (Not (CHR '')'')), GClose, Lit '')'']"

definition re_instance :: regex where \<comment> \<open>\<^verbatim>\<open>instance=ExtResource\("([^"]+)"\)\<close>\<close>
  "re_instance = [Lit ''instance=ExtResource(\"'', GOpen, Plus (Not (CHR ''\"'')), GClose, Lit ''\")'']"

text \<open>
  The idiom \<open>if matches := re.FindStringSubmatch(line); len(matches) > 1 { ... matches[1] }\<close>:
  the first capture group, when there is a match.
\<close>

definition submatch1 :: "'f golib \<Rightarrow> regex \<Rightarrow> string \<Rightarrow> string option" where
  "submatch1 L re line = (let matches = FindStringSubmatch L re line in
      if length matches > 1 then Some (matches ! 1) else None)"

section \<open>Data model\<close>

text \<open>
  The structs of types.go and parser.go as records. The version of types.go that goes with
  this parser is not among the sources; the fields are those the parser reads or writes.
  Several structs have a field of the same name, so fields are written with the name of
  their record (\<open>ExtResource.ID\<close>). A nil slice and an empty slice are both \<open>[]\<close>, and
  a Go map is an association list updated with \<open>AList.update\<close> and read with \<open>map_of\<close>.
\<close>

record 'f Vec2 =
  X :: 'f
  Y :: 'f

record Vec2i =
  X :: int
  Y :: int

record TileSize =
  Width :: int
  Height :: int

record 'f PhysicsData =
  CollisionPoints :: "'f Vec2 list"

record 'f TileInfo =
  AtlasCoords :: Vec2i
  Physics :: "'f PhysicsData"

record 'f TileSource =
  ID :: int
  TexturePath :: string
  Tiles :: "'f TileInfo list"

record 'f TileSet =
  Sources :: "'f TileSource list"

record TileInstance =
  TileCoords :: Vec2i
  SourceID :: int
  AtlasCoords :: Vec2i

record Layer =
  ID :: int
  Name :: string
  Tiles :: "TileInstance list"
  ZIndex :: int
  TileData :: "int list"

record 'f TileMapData =
  Format :: int
  TileSize :: TileSize
  TileSet :: "'f TileSet"
  Layers :: "Layer list"
  WorldTileSize :: TileSize

text \<open>The values a \<open>Properties map[string]any\<close> of a sprite holds.\<close>

datatype 'f propval = PInt int | PVec2 "'f Vec2" | PString string

record 'f DecoratorNode =
  Name :: string
  Parent :: string
  Position :: "'f Vec2"
  Path :: string
  ZIndex :: int

record 'f SpriteNode =
  Name :: string
  Parent :: string
  Position :: "'f Vec2"
  Path :: string
  Scale :: "'f Vec2"
  Ratation :: 'f
  Properties :: "(string \<times> 'f propval) list"

record 'f PrefabNode =
  Name :: string
  Path :: string
  Position :: "'f Vec2"
  Scale :: "'f Vec2"
  Ratation :: 'f
  Properties :: "(string \<times> 'f propval) list"
  Texture :: string
  Pivot :: "'f Vec2"
  ZIndex :: int
  ColliderType :: string
  ColliderPivot :: "'f Vec2"
  ColliderParams :: "'f list"
  ColliderParent :: string

record 'f MapData =
  TileMap :: "'f TileMapData"
  Decorators :: "'f DecoratorNode list"
  Sprites :: "'f SpriteNode list"
  Prefabs :: "'f PrefabNode list"

record ExtResource =
  ID :: string
  Type :: string
  Path :: string
  UID :: string

record 'f ShapeInfo =
  Type :: string
  Dimensions :: "'f Vec2"
  Points :: "'f list"

record 'f PrefabInfo =
  Name :: string
  Pivot :: "'f Vec2"
  ZIndex :: int
  Scale :: "'f Vec2"
  Rotation :: 'f
  ColliderType :: string
  ColliderPivot :: "'f Vec2"
  ColliderParams :: "'f list"
  Texture :: string
  ColliderParent :: string

record 'f TSCNConverter =
  tileSize :: TileSize
  sources :: "(int \<times> 'f TileSource) list"
  extResources :: "(string \<times> ExtResource) list"
  subResourceTextures :: "(string \<times> string) list"
  tilePhysicsData :: "(string \<times> 'f Vec2 list) list"
  decorators :: "'f DecoratorNode list"
  currentDecorator :: "'f DecoratorNode option"
  sprites :: "'f SpriteNode list"
  currentSprite :: "'f SpriteNode option"
  prefabCache :: "(string \<times> 'f PrefabInfo) list"
  subResourceShapes :: "(string \<times> 'f ShapeInfo) list"

text \<open>The zero value of \<open>Vec2\<close>, and the converter that \<open>newTSCNConverter\<close> returns.\<close>

definition zeroVec2 :: "'f golib \<Rightarrow> 'f Vec2" where
  "zeroVec2 L = \<lparr>Vec2.X = f_of_int L 0, Vec2.Y = f_of_int L 0\<rparr>"

definition newTSCNConverter :: "'f TSCNConverter" where
  "newTSCNConverter = \<lparr>tileSize = \<lparr>Width = 16, Height = 16\<rparr>, sources = [], extResources = [],
     subResourceTextures = [], tilePhysicsData = [], decorators = [], currentDecorator = None,
     sprites = [], currentSprite = None, prefabCache = [], subResourceShapes = []\<rparr>"

section \<open>Package-level state\<close>

text \<open>
  The package variables \<open>minTileX\<close>, \<open>maxTileX\<close>, \<open>minTileY\<close>, \<open>maxTileY\<close> and
  \<open>tileTotalCount\<close> of parser.go, threaded through every function that touches them.
\<close>

record globals =
  minTileX :: int
  maxTileX :: int
  minTileY :: int
  maxTileY :: int
  tileTotalCount :: int

text \<open>
  The configuration variables \<open>tilemapTileSize\<close>, \<open>tilemapOffset\<close> and
  \<open>prefabsDirectory\<close>, set before a parse (\<open>SetTileSize\<close>, \<open>SetOffset\<close>,
  \<open>SetPrefabsDir\<close>) and only read during it.
\<close>

record 'f config =
  tilemapTileSize :: TileSize
  tilemapOffset :: "'f Vec2"
  prefabsDirectory :: string

definition defaultConfig :: "'f golib \<Rightarrow> 'f config" where
  "defaultConfig L = \<lparr>tilemapTileSize = \<lparr>Width = 16, Height = 16\<rparr>,
     tilemapOffset = \<lparr>Vec2.X = f_of_int L 0, Vec2.Y = f_of_int L 0\<rparr>, prefabsDirectory = ''''\<rparr>"

text \<open>
  Files: \<open>files w path\<close> is the content of the file at \<open>path\<close>, or \<open>None\<close> when it
  cannot be opened; \<open>opened w\<close> lists the paths handed to \<open>os.Open\<close> and \<open>os.ReadFile\<close>
  so far, in order. A file that opens is read to its end without an I/O error.
\<close>

record world =
  files :: "string \<Rightarrow> string option"
  opened :: "string list"

definition osOpen :: "string \<Rightarrow> world \<Rightarrow> string option \<times> world" where
  "osOpen path w = (files w path, w\<lparr>opened := opened w @ [path]\<rparr>)"

text \<open>
  A \<open>bufio.Scanner\<close> with the default line splitter and a buffer of \<open>cap\<close> bytes: the
  lines it delivers, each without its line end and one trailing carriage return, and
  whether it stopped with \<open>ErrTooLong\<close>, which it does at the first line of \<open>cap\<close> bytes or
  more. A final line end does not start another line.
\<close>

definition dropCR :: "string \<Rightarrow> string" where
  "dropCR l = (if l \<noteq> [] \<and> last l = CHR 0x0D then butlast l else l)"

definition scanLines :: "nat \<Rightarrow> string \<Rightarrow> string list \<times> bool" where
  "scanLines cap content =
    (let ls = Split content [CHR 0x0A];
         ls = (if last ls = [] then butlast ls else ls);
         delivered = takeWhile (\<lambda>l. length l < cap) ls
     in (map dropCR delivered, length delivered < length ls))"

text \<open>The errors the package returns, by the place that creates them.\<close>

datatype error =
    ErrInputEmpty
  | ErrOpen string
  | ErrRead
  | ErrOddSize int int
  | ErrPrefabsDirNotSet
  | ErrOpenPrefab string
  | ErrReadPrefab

text \<open>A call either panics or returns.\<close>

datatype 'a outcome = Panic | Returned 'a

section \<open>The tile codec\<close>

text \<open>The body of the loop of \<open>convertTileDataFormat\<close>, for one group of three integers.\<close>

definition decodeTile :: "int \<Rightarrow> int \<Rightarrow> int \<Rightarrow> int \<Rightarrow> int \<Rightarrow> globals \<Rightarrow> globals \<times> int list" where
  "decodeTile tileOffsetX tileOffsetY tilePos sourceID atlasEncoded g =
    (let tileX = tilePos AND 0xFFFF;
         tileX = (if tileX \<ge> 0x8000 then wrap64 (tileX - 0x10000) else tileX);
         tileY = (drop_bit 16 tilePos) AND 0xFFFF;
         tileY = (if tileY \<ge> 0x8000 then wrap64 (tileY - 0x10000) else tileY);
         g = (if tileX < minTileX g then g\<lparr>minTileX := tileX\<rparr> else g);
         g = (if tileX > maxTileX g then g\<lparr>maxTileX := tileX\<rparr> else g);
         g = (if tileY < minTileY g then g\<lparr>minTileY := tileY\<rparr> else g);
         g = (if tileY > maxTileY g then g\<lparr>maxTileY := tileY\<rparr> else g);
         atlasX = atlasEncoded AND 0xFFFF;
         atlasY = (drop_bit 16 atlasEncoded) AND 0xFFFF;
         tileX = wrap64 (tileX + tileOffsetX);
         tileY = wrap64 (tileY + tileOffsetY);
         g = g\<lparr>tileTotalCount := wrap64 (tileTotalCount g + 1)\<rparr>
     in (g, [sourceID, tileX, wrap64 (- tileY), atlasX, atlasY]))"

text \<open>
  The loop \<open>for i := 0; i < lenght; i += 3\<close> with its \<open>break\<close> when \<open>i+2 >= lenght\<close>;
  \<open>newData\<close> is the slice appended to.
\<close>

function convertLoop :: "int \<Rightarrow> int \<Rightarrow> int list \<Rightarrow> nat \<Rightarrow> globals \<Rightarrow> int list \<Rightarrow> globals \<times> int list" where
  "convertLoop tileOffsetX tileOffsetY tileData i g newData =
    (if i < length tileData then
       (if i + 2 \<ge> length tileData then (g, newData)
        else (case decodeTile tileOffsetX tileOffsetY
                     (tileData ! i) (tileData ! (i + 1)) (tileData ! (i + 2)) g of
                (g', grp) \<Rightarrow> convertLoop tileOffsetX tileOffsetY tileData (i + 3) g' (newData @ grp)))
     else (g, newData))"
  by pat_completeness auto
termination
  by (relation "measure (\<lambda>(ox, oy, tileData, i, g, newData). length tileData - i)") auto

declare convertLoop.simps [simp del]

text \<open>
  The first statement of \<open>convertTileDataFormat\<close>: the offset in tiles, from the offset
  in pixels and the tile size, by a floating point division and the conversion to \<open>int\<close>.
\<close>

definition tileOffsets :: "'f golib \<Rightarrow> 'f config \<Rightarrow> int \<times> int" where
  "tileOffsets L cfg =
    (f_to_int L (f_div L (Vec2.X (tilemapOffset cfg)) (f_of_int L (Width (tilemapTileSize cfg)))),
     f_to_int L (f_div L (Vec2.Y (tilemapOffset cfg)) (f_of_int L (Height (tilemapTileSize cfg)))))"

definition convertTileDataFormat ::
  "'f golib \<Rightarrow> 'f config \<Rightarrow> int list \<Rightarrow> globals \<Rightarrow> globals \<times> int list" where
  "convertTileDataFormat L cfg tileData g =
    (case tileOffsets L cfg of
       (tileOffsetX, tileOffsetY) \<Rightarrow> convertLoop tileOffsetX tileOffsetY tileData 0 g [])"

section \<open>The layer pass\<close>

text \<open>The local variables of \<open>parseLayersFromTSCN\<close>.\<close>

record layerState =
  currentLayerID :: int
  currentLayerName :: string
  currentZIndex :: int
  currentTileData :: "int list"
  layers :: "Layer list"

text \<open>The three \<open>if\<close> statements of the loop body, in their order.\<close>

definition layerName :: "'f golib \<Rightarrow> string \<Rightarrow> layerState \<Rightarrow> layerState" where
  "layerName L line st =
    (if Contains line ''/name = '' then
       (let parts = Split line ''/name = '' in
        if length parts = 2 then
          (let layerIDStr = Replace1 (parts ! 0) ''layer_'' '''' in
           case Atoi L layerIDStr of
             (layerID, True) \<Rightarrow> st\<lparr>currentLayerID := layerID,
                                     currentLayerName := Trim (parts ! 1) ''\"''\<rparr>
           | (_, False) \<Rightarrow> st)
        else st)
     else st)"

definition layerZIndex :: "'f golib \<Rightarrow> string \<Rightarrow> layerState \<Rightarrow> layerState" where
  "layerZIndex L line st =
    (if Contains line ''/z_index = '' then
       (let parts = Split line ''/z_index = '' in
        if length parts = 2 then
          (case Atoi L (TrimSpace L (parts ! 1)) of
             (zIndex, True) \<Rightarrow> st\<lparr>currentZIndex := zIndex\<rparr>
           | (_, False) \<Rightarrow> st)
        else st)
     else st)"

text \<open>The inner loop: the parts that are integers, appended to \<open>currentTileData\<close>.\<close>

fun appendInts :: "'f golib \<Rightarrow> string list \<Rightarrow> int list \<Rightarrow> int list" where
  "appendInts L [] acc = acc"
| "appendInts L (part # parts) acc =
     (case Atoi L (TrimSpace L part) of
        (v, True) \<Rightarrow> appendInts L parts (acc @ [v])
      | (_, False) \<Rightarrow> appendInts L parts acc)"

definition layerTileData ::
  "'f golib \<Rightarrow> 'f config \<Rightarrow> string \<Rightarrow> layerState \<times> globals \<Rightarrow> layerState \<times> globals" where
  "layerTileData L cfg line sg =
    (case sg of (st, g) \<Rightarrow>
     if Contains line ''/tile_data = PackedInt32Array('' \<and> currentLayerID st \<ge> 0 then
       (let start = Index line ''PackedInt32Array('' + int (length ''PackedInt32Array('');
            end = LastIndex line '')''
        in if end > start then
             (case slice line start end of
                None \<Rightarrow> (st, g)
              | Some dataStr \<Rightarrow>
                 (let tileData = (if dataStr \<noteq> '''' then
                                    appendInts L (Split dataStr '','') (currentTileData st)
                                  else currentTileData st)
                  in case convertTileDataFormat L cfg tileData g of
                       (g', convertedTileData) \<Rightarrow>
                         (let layer = \<lparr>Layer.ID = currentLayerID st, Layer.Name = currentLayerName st,
                                       Layer.Tiles = [], Layer.ZIndex = currentZIndex st,
                                       Layer.TileData = convertedTileData\<rparr>
                          in (st\<lparr>layers := layers st @ [layer], currentLayerID := -1,
                                  currentLayerName := '''', currentZIndex := 0,
                                  currentTileData := []\<rparr>, g'))))
           else (st, g))
     else (st, g))"

definition layerLine ::
  "'f golib \<Rightarrow> 'f config \<Rightarrow> layerState \<times> globals \<Rightarrow> string \<Rightarrow> layerState \<times> globals" where
  "layerLine L cfg sg line0 =
    (case sg of (st, g) \<Rightarrow>
      let line = TrimSpace L line0;
          st = layerName L line st;
          st = layerZIndex L line st
      in layerTileData L cfg line (st, g))"

definition parseLayersFromTSCN ::
  "'f golib \<Rightarrow> 'f config \<Rightarrow> string \<Rightarrow> world \<times> globals \<Rightarrow> (Layer list) option \<times> world \<times> globals" where
  "parseLayersFromTSCN L cfg filename wg =
    (case wg of (w, g) \<Rightarrow>
     case osOpen filename w of
       (None, w') \<Rightarrow> (None, w', g)
     | (Some content, w') \<Rightarrow>
        (let lines = Split content [CHR 0x0A];
             init = \<lparr>currentLayerID = -1, currentLayerName = '''', currentZIndex = 0,
                     currentTileData = [], layers = []\<rparr>
         in case foldl (layerLine L cfg) (init, g) lines of
              (st, g') \<Rightarrow> (Some (layers st), w', g')))"


section \<open>Field extraction\<close>

definition extractSubResourceID :: "'f golib \<Rightarrow> string \<Rightarrow> string" where
  "extractSubResourceID L line = (case submatch1 L re_id line of Some m \<Rightarrow> m | None \<Rightarrow> '''')"

definition extractShapeType :: "'f golib \<Rightarrow> string \<Rightarrow> string" where
  "extractShapeType L line = (case submatch1 L re_shape line of Some m \<Rightarrow> m | None \<Rightarrow> '''')"

definition extractExtResourceID :: "'f golib \<Rightarrow> string \<Rightarrow> string" where
  "extractExtResourceID L line = (case submatch1 L re_extres line of Some m \<Rightarrow> m | None \<Rightarrow> '''')"

definition extractSubResourceReference :: "'f golib \<Rightarrow> string \<Rightarrow> string" where
  "extractSubResourceReference L line =
     (case submatch1 L re_subres line of Some m \<Rightarrow> m | None \<Rightarrow> '''')"

text \<open>\<open>val, _ := strconv.Atoi(...)\<close>: the value is used whether or not there was an error.\<close>

definition extractIntValue :: "'f golib \<Rightarrow> string \<Rightarrow> int" where
  "extractIntValue L line = (let parts = Split line ''='' in
      if length parts > 1 then fst (Atoi L (TrimSpace L (parts ! 1))) else 0)"

definition extractSourceID :: "'f golib \<Rightarrow> string \<Rightarrow> int" where
  "extractSourceID L line =
     (case submatch1 L re_sources line of Some m \<Rightarrow> fst (Atoi L m) | None \<Rightarrow> -1)"

definition extractLayerID :: "'f golib \<Rightarrow> string \<Rightarrow> int" where
  "extractLayerID L line =
     (case submatch1 L re_layer line of Some m \<Rightarrow> fst (Atoi L m) | None \<Rightarrow> 0)"

text \<open>
  The loop of \<open>extractPolygonPoints\<close> reads \<open>parts\<close> two at a time and stops at a last
  single part; a pair is kept when both parts are numbers.
\<close>

fun pointPairs :: "'f golib \<Rightarrow> string list \<Rightarrow> 'f Vec2 list" where
  "pointPairs L (a # b # parts) =
     (case (ParseFloat L (TrimSpace L a), ParseFloat L (TrimSpace L b)) of
        ((x, True), (y, True)) \<Rightarrow> \<lparr>Vec2.X = x, Vec2.Y = y\<rparr> # pointPairs L parts
      | _ \<Rightarrow> pointPairs L parts)"
| "pointPairs L parts = []"

definition extractPolygonPoints :: "'f golib \<Rightarrow> string \<Rightarrow> 'f Vec2 list" where
  "extractPolygonPoints L line =
     (let matches = FindStringSubmatch L re_packed line in
      if length matches < 2 then [] else pointPairs L (Split (matches ! 1) '',''))"

definition extractVector2 :: "'f golib \<Rightarrow> string \<Rightarrow> 'f Vec2" where
  "extractVector2 L line =
     (let matches = FindStringSubmatch L re_vector2 line in
      if length matches < 3 then zeroVec2 L
      else (case (ParseFloat L (TrimSpace L (matches ! 1)), ParseFloat L (TrimSpace L (matches ! 2))) of
              ((x, True), (y, True)) \<Rightarrow> \<lparr>Vec2.X = x, Vec2.Y = y\<rparr>
            | _ \<Rightarrow> zeroVec2 L))"

text \<open>
  \<open>extractTileData\<close> slices the line between the first \<open>PackedInt32Array(\<close> and the last
  closing parenthesis without comparing the two positions: the slice expression panics
  (\<open>None\<close>) when the parenthesis comes first.
\<close>

fun tileInts :: "'f golib \<Rightarrow> string list \<Rightarrow> int list" where
  "tileInts L [] = []"
| "tileInts L (part0 # parts) =
     (let part = TrimSpace L part0 in
      if part = '''' then tileInts L parts
      else (case Atoi L part of
              (val, True) \<Rightarrow> val # tileInts L parts
            | (_, False) \<Rightarrow> tileInts L parts))"

definition extractTileData :: "'f golib \<Rightarrow> string \<Rightarrow> int list option" where
  "extractTileData L line =
     (let start = Index line ''PackedInt32Array('' in
      if start = -1 then Some []
      else (let start = start + int (length ''PackedInt32Array('');
                end = LastIndex line '')''
            in if end = -1 then Some []
               else (case slice line start end of
                       None \<Rightarrow> None
                     | Some content \<Rightarrow> Some (tileInts L (Split content '','')))))"

text \<open>The loop of \<open>parseTileData\<close> over groups of five integers.\<close>

function tilesLoop :: "int list \<Rightarrow> nat \<Rightarrow> TileInstance list \<Rightarrow> TileInstance list" where
  "tilesLoop data i tiles =
    (if i < length data then
       (if i + 4 \<ge> length data then tiles
        else tilesLoop data (i + 5)
               (tiles @ [\<lparr>TileCoords = \<lparr>Vec2i.X = data ! (i + 1), Vec2i.Y = data ! (i + 2)\<rparr>,
                          SourceID = data ! i,
                          TileInstance.AtlasCoords =
                            \<lparr>Vec2i.X = data ! (i + 3), Vec2i.Y = data ! (i + 4)\<rparr>\<rparr>]))
     else tiles)"
  by pat_completeness auto
termination
  by (relation "measure (\<lambda>(data, i, tiles). length data - i)") auto

declare tilesLoop.simps [simp del]

definition parseTileData :: "'f golib \<Rightarrow> int \<Rightarrow> int list \<Rightarrow> Layer" where
  "parseTileData L layerID data =
     \<lparr>Layer.ID = layerID, Layer.Name = ''layer_'' @ Itoa L layerID,
      Layer.Tiles = tilesLoop data 0 [], Layer.ZIndex = 0, Layer.TileData = []\<rparr>"

section \<open>External resources and sub-resources\<close>

text \<open>The local \<open>extRes\<close> of \<open>parseExtResource\<close> after its four extractions.\<close>

definition lastSubmatch1 :: "'f golib \<Rightarrow> regex \<Rightarrow> string \<Rightarrow> string option" where
  "lastSubmatch1 L re line = (let matches = FindAllStringSubmatch L re line in
      if length matches > 0 then
        (let lastMatch = matches ! (length matches - 1) in
         if length lastMatch > 1 then Some (lastMatch ! 1) else None)
      else None)"

definition extResOf :: "'f golib \<Rightarrow> string \<Rightarrow> ExtResource" where
  "extResOf L line =
    (let extRes = \<lparr>ExtResource.ID = '''', ExtResource.Type = '''', ExtResource.Path = '''',
                    ExtResource.UID = ''''\<rparr>;
         extRes = (case submatch1 L re_type line of
                     Some m \<Rightarrow> extRes\<lparr>ExtResource.Type := m\<rparr> | None \<Rightarrow> extRes);
         extRes = (case submatch1 L re_path line of
                     Some m \<Rightarrow> extRes\<lparr>ExtResource.Path := m\<rparr> | None \<Rightarrow> extRes);
         extRes = (case lastSubmatch1 L re_sid line of
                     Some m \<Rightarrow> extRes\<lparr>ExtResource.ID := m\<rparr> | None \<Rightarrow> extRes);
         extRes = (case submatch1 L re_uid line of
                     Some m \<Rightarrow> extRes\<lparr>ExtResource.UID := m\<rparr> | None \<Rightarrow> extRes)
     in extRes)"

definition parseExtResource :: "'f golib \<Rightarrow> string \<Rightarrow> 'f TSCNConverter \<Rightarrow> 'f TSCNConverter" where
  "parseExtResource L line c =
    (let extRes = extResOf L line in
     if ExtResource.ID extRes \<noteq> '''' then
       c\<lparr>extResources := AList.update (ExtResource.ID extRes) extRes (extResources c)\<rparr>
     else c)"

text \<open>The loop of \<open>calculateTileSizeFromPoints\<close>: the running minima and maxima.\<close>

fun pointBounds :: "'f golib \<Rightarrow> 'f Vec2 list \<Rightarrow> 'f \<times> 'f \<times> 'f \<times> 'f \<Rightarrow> 'f \<times> 'f \<times> 'f \<times> 'f" where
  "pointBounds L [] b = b"
| "pointBounds L (point # points) (minX, maxX, minY, maxY) =
     (let minX = (if f_lt L (Vec2.X point) minX then Vec2.X point else minX);
          maxX = (if f_lt L maxX (Vec2.X point) then Vec2.X point else maxX);
          minY = (if f_lt L (Vec2.Y point) minY then Vec2.Y point else minY);
          maxY = (if f_lt L maxY (Vec2.Y point) then Vec2.Y point else maxY)
      in pointBounds L points (minX, maxX, minY, maxY))"

definition calculateTileSizeFromPoints ::
  "'f golib \<Rightarrow> 'f TSCNConverter \<Rightarrow> 'f Vec2 list \<Rightarrow> TileSize" where
  "calculateTileSizeFromPoints L c points =
    (if length points < 4 then tileSize c
     else (case pointBounds L points (Vec2.X (points ! 0), Vec2.X (points ! 0),
                                      Vec2.Y (points ! 0), Vec2.Y (points ! 0)) of
             (minX, maxX, minY, maxY) \<Rightarrow>
               \<lparr>Width = f_to_int L (f_sub L maxX minX), Height = f_to_int L (f_sub L maxY minY)\<rparr>))"

text \<open>
  The three shape properties, written through the pointer that the shape table holds;
  \<open>parseSubResource\<close> and \<open>parsePrefabFile\<close> have the same three branches, each on its
  own table.
\<close>

definition shapeSize :: "'f golib \<Rightarrow> string \<Rightarrow> string \<Rightarrow> (string \<times> 'f ShapeInfo) list \<Rightarrow> (string \<times> 'f ShapeInfo) list" where
  "shapeSize L line resourceID shapes =
    (case map_of shapes resourceID of
       Some shape \<Rightarrow> AList.update resourceID (shape\<lparr>Dimensions := extractVector2 L line\<rparr>) shapes
     | None \<Rightarrow> shapes)"

definition shapeRadius :: "'f golib \<Rightarrow> string \<Rightarrow> string \<Rightarrow> (string \<times> 'f ShapeInfo) list \<Rightarrow> (string \<times> 'f ShapeInfo) list" where
  "shapeRadius L line resourceID shapes =
    (case map_of shapes resourceID of
       Some shape \<Rightarrow>
         (let parts = Split line ''='' in
          if length parts > 1 then
            (let radius = fst (ParseFloat L (TrimSpace L (parts ! 1))) in
             AList.update resourceID
               (shape\<lparr>Dimensions := \<lparr>Vec2.X = radius, Vec2.Y = f_of_int L 0\<rparr>\<rparr>) shapes)
          else shapes)
     | None \<Rightarrow> shapes)"

definition shapePoints :: "'f golib \<Rightarrow> string \<Rightarrow> string \<Rightarrow> (string \<times> 'f ShapeInfo) list \<Rightarrow> (string \<times> 'f ShapeInfo) list" where
  "shapePoints L line resourceID shapes =
    (case map_of shapes resourceID of
       Some shape \<Rightarrow>
         (let points = extractPolygonPoints L line in
          AList.update resourceID
            (shape\<lparr>Points := Points shape @ concat (map (\<lambda>p. [Vec2.X p, Vec2.Y p]) points)\<rparr>) shapes)
     | None \<Rightarrow> shapes)"

text \<open>The \<open>sources/\<close> branch of \<open>parseSubResource\<close>: the tile source it stores.\<close>

definition tileSourceOf :: "'f golib \<Rightarrow> string \<Rightarrow> 'f TSCNConverter \<Rightarrow> 'f TileSource" where
  "tileSourceOf L line c =
    (let sourceID = extractSourceID L line;
         subResourceID = extractSubResourceReference L line;
         texturePath = (if subResourceID \<noteq> '''' then
                          (case map_of (subResourceTextures c) subResourceID of
                             Some extResourceID \<Rightarrow>
                               (case map_of (extResources c) extResourceID of
                                  Some extRes \<Rightarrow> ExtResource.Path extRes
                                | None \<Rightarrow> ''unknown'')
                           | None \<Rightarrow> ''unknown'')
                        else ''unknown'');
         physicsData = (if subResourceID \<noteq> '''' then
                          (case map_of (tilePhysicsData c) subResourceID of
                             Some points \<Rightarrow> \<lparr>CollisionPoints = points\<rparr>
                           | None \<Rightarrow> \<lparr>CollisionPoints = []\<rparr>)
                        else \<lparr>CollisionPoints = []\<rparr>)
     in \<lparr>TileSource.ID = sourceID, TexturePath = texturePath,
         TileSource.Tiles = [\<lparr>TileInfo.AtlasCoords = \<lparr>Vec2i.X = 0, Vec2i.Y = 0\<rparr>,
                               Physics = physicsData\<rparr>]\<rparr>)"

definition parseSubResource ::
  "'f golib \<Rightarrow> string \<Rightarrow> string \<Rightarrow> 'f TSCNConverter \<Rightarrow> 'f TSCNConverter" where
  "parseSubResource L line resourceID c =
    (if HasPrefix line ''texture = ExtResource('' then
       (let extResourceID = extractExtResourceID L line in
        if extResourceID \<noteq> '''' \<and> resourceID \<noteq> '''' then
          c\<lparr>subResourceTextures := AList.update resourceID extResourceID (subResourceTextures c)\<rparr>
        else c)
     else if HasPrefix line ''size = Vector2('' then
       c\<lparr>subResourceShapes := shapeSize L line resourceID (subResourceShapes c)\<rparr>
     else if HasPrefix line ''radius = '' then
       c\<lparr>subResourceShapes := shapeRadius L line resourceID (subResourceShapes c)\<rparr>
     else if HasPrefix line ''points = PackedVector2Array('' then
       c\<lparr>subResourceShapes := shapePoints L line resourceID (subResourceShapes c)\<rparr>
     else if HasPrefix line ''0:0/0/physics_layer_0/polygon_0/points'' then
       (let points = extractPolygonPoints L line in
        if length points \<ge> 4 then
          c\<lparr>tileSize := calculateTileSizeFromPoints L c points,
            tilePhysicsData := AList.update resourceID points (tilePhysicsData c)\<rparr>
        else c)
     else if HasPrefix line ''sources/'' then
       (let sourceID = extractSourceID L line in
        if sourceID \<noteq> -1 then
          c\<lparr>sources := AList.update sourceID (tileSourceOf L line c) (sources c)\<rparr>
        else c)
     else c)"


section \<open>Decorator and sprite nodes\<close>

definition parseDecoratorNode :: "'f golib \<Rightarrow> string \<Rightarrow> 'f DecoratorNode" where
  "parseDecoratorNode L line =
    (let decorator = \<lparr>DecoratorNode.Name = '''', DecoratorNode.Parent = '''',
                       DecoratorNode.Position = zeroVec2 L, DecoratorNode.Path = ''unknown'',
                       DecoratorNode.ZIndex = 0\<rparr>;
         decorator = (case submatch1 L re_name line of
                        Some m \<Rightarrow> decorator\<lparr>DecoratorNode.Name := m\<rparr> | None \<Rightarrow> decorator);
         decorator = (case submatch1 L re_parent line of
                        Some m \<Rightarrow> decorator\<lparr>DecoratorNode.Parent := m\<rparr> | None \<Rightarrow> decorator)
     in decorator)"

definition parseDecoratorProperty ::
  "'f golib \<Rightarrow> string \<Rightarrow> 'f TSCNConverter \<Rightarrow> 'f TSCNConverter" where
  "parseDecoratorProperty L line c =
    (case currentDecorator c of
       None \<Rightarrow> c
     | Some d \<Rightarrow>
        if HasPrefix line ''position = Vector2('' then
          (let position = extractVector2 L line;
               position = position\<lparr>Vec2.Y := f_neg L (Vec2.Y position)\<rparr>
           in c\<lparr>currentDecorator := Some (d\<lparr>DecoratorNode.Position := position\<rparr>)\<rparr>)
        else if HasPrefix line ''texture = ExtResource('' then
          (let extResourceID = extractExtResourceID L line in
           case map_of (extResources c) extResourceID of
             Some extRes \<Rightarrow>
               c\<lparr>currentDecorator := Some (d\<lparr>DecoratorNode.Path := ExtResource.Path extRes\<rparr>)\<rparr>
           | None \<Rightarrow> c)
        else if HasPrefix line ''z_index = '' then
          c\<lparr>currentDecorator := Some (d\<lparr>DecoratorNode.ZIndex := int32 (extractIntValue L line)\<rparr>)\<rparr>
        else c)"

definition parseSpriteNode :: "'f golib \<Rightarrow> string \<Rightarrow> 'f TSCNConverter \<Rightarrow> 'f SpriteNode" where
  "parseSpriteNode L line c =
    (let sprite = \<lparr>SpriteNode.Name = '''', SpriteNode.Parent = '''',
                    SpriteNode.Position = zeroVec2 L, SpriteNode.Path = ''unknown'',
                    SpriteNode.Scale = \<lparr>Vec2.X = f_of_int L 1, Vec2.Y = f_of_int L 1\<rparr>,
                    SpriteNode.Ratation = f_of_int L 0, SpriteNode.Properties = []\<rparr>;
         sprite = (case submatch1 L re_name line of
                     Some m \<Rightarrow> sprite\<lparr>SpriteNode.Name := m\<rparr> | None \<Rightarrow> sprite);
         sprite = (case submatch1 L re_parent line of
                     Some m \<Rightarrow> sprite\<lparr>SpriteNode.Parent := m\<rparr> | None \<Rightarrow> sprite);
         sprite = (case submatch1 L re_instance line of
                     Some extResourceID \<Rightarrow>
                       (case map_of (extResources c) extResourceID of
                          Some extRes \<Rightarrow> sprite\<lparr>SpriteNode.Path := ExtResource.Path extRes\<rparr>
                        | None \<Rightarrow> sprite)
                   | None \<Rightarrow> sprite)
     in sprite)"

definition parseSpriteProperty ::
  "'f golib \<Rightarrow> 'f config \<Rightarrow> string \<Rightarrow> 'f TSCNConverter \<Rightarrow> 'f TSCNConverter" where
  "parseSpriteProperty L cfg line c =
    (case currentSprite c of
       None \<Rightarrow> c
     | Some s \<Rightarrow>
        if HasPrefix line ''position = Vector2('' then
          (let position = extractVector2 L line;
               position = position\<lparr>Vec2.X := f_add L (Vec2.X position) (Vec2.X (tilemapOffset cfg))\<rparr>;
               position = position\<lparr>Vec2.Y := f_add L (Vec2.Y position) (Vec2.Y (tilemapOffset cfg))\<rparr>;
               position = position\<lparr>Vec2.Y := f_neg L (Vec2.Y position)\<rparr>
           in c\<lparr>currentSprite := Some (s\<lparr>SpriteNode.Position := position\<rparr>)\<rparr>)
        else if HasPrefix line ''scale = Vector2('' then
          c\<lparr>currentSprite := Some (s\<lparr>SpriteNode.Scale := extractVector2 L line\<rparr>)\<rparr>
        else if HasPrefix line ''rotation = '' then
          (let parts = Split line ''='' in
           if length parts > 1 then
             (let rotation = fst (ParseFloat L (TrimSpace L (parts ! 1))) in
              c\<lparr>currentSprite := Some (s\<lparr>SpriteNode.Ratation := rotation\<rparr>)\<rparr>)
           else c)
        else if HasPrefix line ''gid = '' then
          (let gidValue = extractIntValue L line in
           c\<lparr>currentSprite := Some (s\<lparr>SpriteNode.Properties :=
                AList.update ''gid'' (PInt gidValue) (SpriteNode.Properties s)\<rparr>)\<rparr>)
        else if HasPrefix line ''zoom = Vector2('' then
          (let zoom = extractVector2 L line in
           c\<lparr>currentSprite := Some (s\<lparr>SpriteNode.Properties :=
                AList.update ''zoom'' (PVec2 zoom) (SpriteNode.Properties s)\<rparr>)\<rparr>)
        else if Contains line '' = '' \<and> \<not> HasPrefix line ''['' then
          (let parts = SplitN2 line '' = '' in
           if length parts = 2 then
             (let key = TrimSpace L (parts ! 0);
                  val = TrimSpace L (parts ! 1)
              in c\<lparr>currentSprite := Some (s\<lparr>SpriteNode.Properties :=
                   AList.update key (PString val) (SpriteNode.Properties s)\<rparr>)\<rparr>)
           else c)
        else c)"

section \<open>The section scanner\<close>

text \<open>
  The block that appends the node in progress to its list, which the scanner repeats in
  three of its header branches.
\<close>

definition finishNodes :: "string \<Rightarrow> 'f TSCNConverter \<Rightarrow> 'f TSCNConverter" where
  "finishNodes currentSection c =
    (let c = (if currentSection = ''decorator'' then
                (case currentDecorator c of
                   Some d \<Rightarrow> c\<lparr>decorators := decorators c @ [d], currentDecorator := None\<rparr>
                 | None \<Rightarrow> c)
              else c);
         c = (if currentSection = ''sprite'' then
                (case currentSprite c of
                   Some s \<Rightarrow> c\<lparr>sprites := sprites c @ [s], currentSprite := None\<rparr>
                 | None \<Rightarrow> c)
              else c)
     in c)"

text \<open>The converter and the local variables of the scan loop of \<open>convertTSCNToTileMap\<close>.\<close>

record 'f scanState =
  conv :: "'f TSCNConverter"
  currentSection :: string
  currentSubResource :: string
  format :: int
  layers :: "Layer list"

text \<open>A line that begins with an opening bracket.\<close>

definition scanHeader :: "'f golib \<Rightarrow> string \<Rightarrow> 'f scanState \<Rightarrow> 'f scanState" where
  "scanHeader L line st =
    (if Contains line ''ext_resource'' then
       st\<lparr>currentSection := ''ext_resource'', conv := parseExtResource L line (conv st)\<rparr>
     else if Contains line ''sub_resource'' then
       (let currentSubResource = extractSubResourceID L line;
            shapeType = extractShapeType L line;
            c = conv st;
            c = (if shapeType \<noteq> '''' then
                   c\<lparr>subResourceShapes := AList.update currentSubResource
                        \<lparr>ShapeInfo.Type = shapeType, Dimensions = zeroVec2 L, Points = []\<rparr>
                        (subResourceShapes c)\<rparr>
                 else c)
        in st\<lparr>currentSection := ''sub_resource'', currentSubResource := currentSubResource,
               conv := c\<rparr>)
     else if Contains line ''node name=\"TileMap\"'' then
       st\<lparr>currentSection := ''tilemap''\<rparr>
     else if Contains line ''type=\"Sprite2D\"'' then
       (let c = finishNodes (scanState.currentSection st) (conv st) in
        st\<lparr>currentSection := ''decorator'',
           conv := c\<lparr>currentDecorator := Some (parseDecoratorNode L line)\<rparr>\<rparr>)
     else if Contains line ''instance=ExtResource'' then
       (let c = finishNodes (scanState.currentSection st) (conv st) in
        st\<lparr>currentSection := ''sprite'',
           conv := c\<lparr>currentSprite := Some (parseSpriteNode L line c)\<rparr>\<rparr>)
     else
       st\<lparr>currentSection := ''other'',
          conv := finishNodes (scanState.currentSection st) (conv st)\<rparr>)"

text \<open>Any other line, by the current section; \<open>None\<close> is the panic of \<open>extractTileData\<close>.\<close>

definition scanContent :: "'f golib \<Rightarrow> 'f config \<Rightarrow> string \<Rightarrow> 'f scanState \<Rightarrow> 'f scanState option" where
  "scanContent L cfg line st =
    (let currentSection = scanState.currentSection st in
     if currentSection = ''ext_resource'' then
       Some (st\<lparr>conv := parseExtResource L line (conv st)\<rparr>)
     else if currentSection = ''sub_resource'' then
       Some (st\<lparr>conv := parseSubResource L line (scanState.currentSubResource st) (conv st)\<rparr>)
     else if currentSection = ''decorator'' then
       Some (st\<lparr>conv := parseDecoratorProperty L line (conv st)\<rparr>)
     else if currentSection = ''sprite'' then
       Some (st\<lparr>conv := parseSpriteProperty L cfg line (conv st)\<rparr>)
     else if currentSection = ''tilemap'' then
       (if HasPrefix line ''format ='' then
          Some (st\<lparr>format := extractIntValue L line\<rparr>)
        else if HasPrefix line ''layer_'' \<and> Contains line ''tile_data'' then
          (let layerID = extractLayerID L line in
           case extractTileData L line of
             None \<Rightarrow> None
           | Some tileData \<Rightarrow>
               Some (st\<lparr>layers := scanState.layers st @ [parseTileData L layerID tileData]\<rparr>))
        else Some st)
     else Some st)"

definition scanLine :: "'f golib \<Rightarrow> 'f config \<Rightarrow> 'f scanState \<Rightarrow> string \<Rightarrow> 'f scanState option" where
  "scanLine L cfg st line0 =
    (let line = TrimSpace L line0 in
     if line = '''' \<or> HasPrefix line ''#'' then Some st
     else if HasPrefix line ''['' then Some (scanHeader L line st)
     else scanContent L cfg line st)"

text \<open>The scan loop: line after line, until the lines end or one panics.\<close>

fun scanDocument :: "'f golib \<Rightarrow> 'f config \<Rightarrow> string list \<Rightarrow> 'f scanState \<Rightarrow> 'f scanState option" where
  "scanDocument L cfg [] st = Some st"
| "scanDocument L cfg (line # lines) st =
     (case scanLine L cfg st line of
        None \<Rightarrow> None
      | Some st' \<Rightarrow> scanDocument L cfg lines st')"

text \<open>The two statements after the loop that append a node still in progress.\<close>

definition finishRemaining :: "'f TSCNConverter \<Rightarrow> 'f TSCNConverter" where
  "finishRemaining c =
    (let c = (case currentDecorator c of
                Some d \<Rightarrow> c\<lparr>decorators := decorators c @ [d]\<rparr> | None \<Rightarrow> c);
         c = (case currentSprite c of
                Some s \<Rightarrow> c\<lparr>sprites := sprites c @ [s]\<rparr> | None \<Rightarrow> c)
     in c)"


section \<open>Prefab files\<close>

definition resolvePrefabPath :: "'f golib \<Rightarrow> 'f config \<Rightarrow> string \<Rightarrow> string" where
  "resolvePrefabPath L cfg resPath =
    (if prefabsDirectory cfg = '''' then ''''
     else (let relativePath = TrimPrefix resPath ''res://'';
               relativePath = TrimPrefix relativePath ''scenes/''
           in filepathJoin L (prefabsDirectory cfg) relativePath))"

text \<open>
  Modelled from the spec: the method \<open>Sub\<close> of \<open>Vec2\<close>, declared in the version of
  types.go that is not among the sources; "the collider pivot is adjusted by subtracting the
  sprite's pivot".
\<close>

definition Vec2_Sub :: "'f golib \<Rightarrow> 'f Vec2 \<Rightarrow> 'f Vec2 \<Rightarrow> 'f Vec2" where
  "Vec2_Sub L v other = \<lparr>Vec2.X = f_sub L (Vec2.X v) (Vec2.X other),
                          Vec2.Y = f_sub L (Vec2.Y v) (Vec2.Y other)\<rparr>"

text \<open>The local variables of the scan loop of \<open>parsePrefabFile\<close>.\<close>

record 'f prefabState =
  info :: "'f PrefabInfo"
  prefabExtResources :: "(string \<times> ExtResource) list"
  prefabShapes :: "(string \<times> 'f ShapeInfo) list"
  currentSection :: string
  currentSubResource :: string
  inSprite2D :: bool

definition prefabExtResource :: "'f golib \<Rightarrow> string \<Rightarrow> 'f prefabState \<Rightarrow> 'f prefabState" where
  "prefabExtResource L line st =
    (let extRes = \<lparr>ExtResource.ID = '''', ExtResource.Type = '''', ExtResource.Path = '''',
                    ExtResource.UID = ''''\<rparr>;
         extRes = (case submatch1 L re_type line of
                     Some m \<Rightarrow> extRes\<lparr>ExtResource.Type := m\<rparr> | None \<Rightarrow> extRes);
         extRes = (case submatch1 L re_path line of
                     Some m \<Rightarrow> extRes\<lparr>ExtResource.Path := m\<rparr> | None \<Rightarrow> extRes);
         extRes = (case lastSubmatch1 L re_sid line of
                     Some m \<Rightarrow> extRes\<lparr>ExtResource.ID := m\<rparr> | None \<Rightarrow> extRes);
         st = st\<lparr>currentSection := ''ext_resource''\<rparr>
     in if ExtResource.ID extRes \<noteq> '''' then
          st\<lparr>prefabExtResources := AList.update (ExtResource.ID extRes) extRes (prefabExtResources st)\<rparr>
        else st)"

definition prefabSubResource :: "'f golib \<Rightarrow> string \<Rightarrow> 'f prefabState \<Rightarrow> 'f prefabState" where
  "prefabSubResource L line st =
    (let currentSubResource = extractSubResourceID L line;
         shapeType = extractShapeType L line;
         st = st\<lparr>currentSection := ''sub_resource'', currentSubResource := currentSubResource\<rparr>
     in if shapeType \<noteq> '''' then
          st\<lparr>prefabShapes := AList.update currentSubResource
               \<lparr>ShapeInfo.Type = shapeType, Dimensions = zeroVec2 L, Points = []\<rparr> (prefabShapes st)\<rparr>
        else st)"

definition prefabRootName :: "'f golib \<Rightarrow> string \<Rightarrow> 'f prefabState \<Rightarrow> 'f prefabState" where
  "prefabRootName L line st =
    (if HasPrefix line ''[node name='' \<and> PrefabInfo.Name (info st) = '''' then
       (case submatch1 L re_name line of
          Some m \<Rightarrow> st\<lparr>info := (info st)\<lparr>PrefabInfo.Name := m\<rparr>\<rparr>
        | None \<Rightarrow> st)
     else st)"

definition prefabCollisionNode :: "'f golib \<Rightarrow> string \<Rightarrow> 'f prefabState \<Rightarrow> 'f prefabState" where
  "prefabCollisionNode L line st =
    (let i = (info st)\<lparr>PrefabInfo.ColliderType := ''auto''\<rparr>;
         i = (case submatch1 L re_parent line of
                Some m \<Rightarrow> i\<lparr>PrefabInfo.ColliderParent := m\<rparr> | None \<Rightarrow> i)
     in st\<lparr>inSprite2D := False, currentSection := ''collision'', info := i\<rparr>)"

definition prefabResetNode :: "string \<Rightarrow> 'f prefabState \<Rightarrow> 'f prefabState" where
  "prefabResetNode line st =
    (if HasPrefix line ''[node '' \<and> \<not> Contains line ''type=\"Sprite2D\"''
        \<and> \<not> Contains line ''type=\"CollisionShape2D\"''
        \<and> \<not> Contains line ''type=\"CollisionPolygon2D\"''
     then st\<lparr>inSprite2D := False, currentSection := ''''\<rparr>
     else st)"

definition prefabShapeProps :: "'f golib \<Rightarrow> string \<Rightarrow> 'f prefabState \<Rightarrow> 'f prefabState" where
  "prefabShapeProps L line st =
    (if prefabState.currentSection st = ''sub_resource'' \<and> prefabState.currentSubResource st \<noteq> '''' then
       (if HasPrefix line ''size = Vector2('' then
          st\<lparr>prefabShapes := shapeSize L line (prefabState.currentSubResource st) (prefabShapes st)\<rparr>
        else if HasPrefix line ''radius = '' then
          st\<lparr>prefabShapes := shapeRadius L line (prefabState.currentSubResource st) (prefabShapes st)\<rparr>
        else if HasPrefix line ''points = PackedVector2Array('' then
          st\<lparr>prefabShapes := shapePoints L line (prefabState.currentSubResource st) (prefabShapes st)\<rparr>
        else st)
     else st)"

definition prefabSpriteProps :: "'f golib \<Rightarrow> string \<Rightarrow> 'f prefabState \<Rightarrow> 'f prefabState" where
  "prefabSpriteProps L line st =
    (if inSprite2D st \<and> prefabState.currentSection st = ''sprite2d'' then
       (if HasPrefix line ''position = Vector2('' then
          st\<lparr>info := (info st)\<lparr>PrefabInfo.Pivot := extractVector2 L line\<rparr>\<rparr>
        else if HasPrefix line ''scale = Vector2('' then
          st\<lparr>info := (info st)\<lparr>PrefabInfo.Scale := extractVector2 L line\<rparr>\<rparr>
        else if HasPrefix line ''rotation = '' then
          (let parts = Split line ''='' in
           if length parts > 1 then
             st\<lparr>info := (info st)\<lparr>Rotation := fst (ParseFloat L (TrimSpace L (parts ! 1)))\<rparr>\<rparr>
           else st)
        else if HasPrefix line ''z_index = '' then
          (let parts = Split line ''='' in
           if length parts > 1 then
             st\<lparr>info := (info st)\<lparr>PrefabInfo.ZIndex :=
                     int32 (fst (ParseInt32 L (TrimSpace L (parts ! 1))))\<rparr>\<rparr>
           else st)
        else if HasPrefix line ''texture = ExtResource('' then
          (let extResourceID = extractExtResourceID L line in
           case map_of (prefabExtResources st) extResourceID of
             Some extRes \<Rightarrow> st\<lparr>info := (info st)\<lparr>PrefabInfo.Texture := ExtResource.Path extRes\<rparr>\<rparr>
           | None \<Rightarrow> st)
        else st)
     else st)"

text \<open>The \<open>switch\<close> on the type of the shape that a collision node refers to.\<close>

definition colliderOfShape :: "'f ShapeInfo \<Rightarrow> 'f PrefabInfo \<Rightarrow> 'f PrefabInfo" where
  "colliderOfShape shapeInfo i =
    (if ShapeInfo.Type shapeInfo = ''RectangleShape2D'' then
       i\<lparr>PrefabInfo.ColliderType := ''rect'',
         PrefabInfo.ColliderParams := [Vec2.X (Dimensions shapeInfo), Vec2.Y (Dimensions shapeInfo)]\<rparr>
     else if ShapeInfo.Type shapeInfo = ''CircleShape2D'' then
       i\<lparr>PrefabInfo.ColliderType := ''circle'',
         PrefabInfo.ColliderParams := [Vec2.X (Dimensions shapeInfo)]\<rparr>
     else if ShapeInfo.Type shapeInfo = ''CapsuleShape2D'' then
       i\<lparr>PrefabInfo.ColliderType := ''capsule''\<rparr>
     else if ShapeInfo.Type shapeInfo = ''ConvexPolygonShape2D''
           \<or> ShapeInfo.Type shapeInfo = ''ConcavePolygonShape2D'' then
       i\<lparr>PrefabInfo.ColliderType := ''polygon'', PrefabInfo.ColliderParams := Points shapeInfo\<rparr>
     else i\<lparr>PrefabInfo.ColliderType := ''auto''\<rparr>)"

definition prefabCollisionProps :: "'f golib \<Rightarrow> string \<Rightarrow> 'f prefabState \<Rightarrow> 'f prefabState" where
  "prefabCollisionProps L line st =
    (if prefabState.currentSection st = ''collision'' then
       (if HasPrefix line ''position = Vector2('' then
          st\<lparr>info := (info st)\<lparr>PrefabInfo.ColliderPivot := extractVector2 L line\<rparr>\<rparr>
        else if Contains line ''polygon = PackedVector2Array('' then
          (let points = extractPolygonPoints L line in
           st\<lparr>info := (info st)\<lparr>PrefabInfo.ColliderParams :=
                PrefabInfo.ColliderParams (info st) @ concat (map (\<lambda>p. [Vec2.X p, Vec2.Y p]) points)\<rparr>\<rparr>)
        else if HasPrefix line ''shape = SubResource('' then
          (let shapeID = extractSubResourceReference L line in
           case map_of (prefabShapes st) shapeID of
             Some shapeInfo \<Rightarrow> st\<lparr>info := colliderOfShape shapeInfo (info st)\<rparr>
           | None \<Rightarrow> st)
        else st)
     else st)"

text \<open>The body of the scan loop, with its \<open>continue\<close> statements.\<close>

definition prefabLine :: "'f golib \<Rightarrow> 'f prefabState \<Rightarrow> string \<Rightarrow> 'f prefabState" where
  "prefabLine L st line0 =
    (let line = TrimSpace L line0 in
     if line = '''' \<or> HasPrefix line ''#'' then st
     else if Contains line ''[ext_resource'' then prefabExtResource L line st
     else if Contains line ''[sub_resource'' then prefabSubResource L line st
     else
       (let st = prefabRootName L line st in
        if Contains line ''type=\"Sprite2D\"'' then
          st\<lparr>inSprite2D := True, currentSection := ''sprite2d''\<rparr>
        else if Contains line ''type=\"CollisionShape2D\"''
              \<or> Contains line ''type=\"CollisionPolygon2D\"'' then
          prefabCollisionNode L line st
        else
          (let st = prefabResetNode line st;
               st = prefabShapeProps L line st;
               st = prefabSpriteProps L line st
           in prefabCollisionProps L line st)))"

definition parsePrefabFile ::
  "'f golib \<Rightarrow> string \<Rightarrow> world \<Rightarrow> (error + 'f PrefabInfo) \<times> world" where
  "parsePrefabFile L filePath w =
    (case osOpen filePath w of
       (None, w') \<Rightarrow> (Inl (ErrOpenPrefab filePath), w')
     | (Some content, w') \<Rightarrow>
        (let init = \<lparr>info = \<lparr>PrefabInfo.Name = '''', PrefabInfo.Pivot = zeroVec2 L,
                               PrefabInfo.ZIndex = 0,
                               PrefabInfo.Scale = \<lparr>Vec2.X = f_of_int L 1, Vec2.Y = f_of_int L 1\<rparr>,
                               Rotation = f_of_int L 0, PrefabInfo.ColliderType = '''',
                               PrefabInfo.ColliderPivot = zeroVec2 L, PrefabInfo.ColliderParams = [],
                               PrefabInfo.Texture = '''', PrefabInfo.ColliderParent = ''''\<rparr>,
                     prefabExtResources = [], prefabShapes = [], currentSection = '''',
                     currentSubResource = '''', inSprite2D = False\<rparr>;
             scanned = scanLines 65536 content;
             st = foldl (prefabLine L) init (fst scanned);
             i = info st;
             i = (if PrefabInfo.ColliderParent i = ''.'' then
                    i\<lparr>PrefabInfo.ColliderPivot :=
                         Vec2_Sub L (PrefabInfo.ColliderPivot i) (PrefabInfo.Pivot i)\<rparr>
                  else i)
         in if snd scanned then (Inl ErrReadPrefab, w') else (Inr i, w')))"

definition getPrefabInfo ::
  "'f golib \<Rightarrow> 'f config \<Rightarrow> string \<Rightarrow> 'f TSCNConverter \<times> world
     \<Rightarrow> (error + 'f PrefabInfo) \<times> 'f TSCNConverter \<times> world" where
  "getPrefabInfo L cfg resPath cw =
    (case cw of (c, w) \<Rightarrow>
     case map_of (prefabCache c) resPath of
       Some i \<Rightarrow> (Inr i, c, w)
     | None \<Rightarrow>
        (let filePath = resolvePrefabPath L cfg resPath in
         if filePath = '''' then (Inl ErrPrefabsDirNotSet, c, w)
         else (case parsePrefabFile L filePath w of
                 (Inl err, w') \<Rightarrow> (Inl err, c, w')
               | (Inr i, w') \<Rightarrow>
                   (Inr i, c\<lparr>prefabCache := AList.update resPath i (prefabCache c)\<rparr>, w'))))"


section \<open>Prefab nodes\<close>

text \<open>The prefab node that \<open>buildPrefabNodes\<close> first makes of a sprite.\<close>

definition prefabOfSprite :: "'f golib \<Rightarrow> 'f SpriteNode \<Rightarrow> 'f PrefabNode" where
  "prefabOfSprite L sprite =
    \<lparr>PrefabNode.Name = SpriteNode.Name sprite, PrefabNode.Path = SpriteNode.Path sprite,
     PrefabNode.Position = SpriteNode.Position sprite, PrefabNode.Scale = SpriteNode.Scale sprite,
     PrefabNode.Ratation = SpriteNode.Ratation sprite,
     PrefabNode.Properties = SpriteNode.Properties sprite,
     PrefabNode.Texture = '''', PrefabNode.Pivot = zeroVec2 L, PrefabNode.ZIndex = 0,
     PrefabNode.ColliderType = '''', PrefabNode.ColliderPivot = zeroVec2 L,
     PrefabNode.ColliderParams = [], PrefabNode.ColliderParent = ''''\<rparr>"

text \<open>The merge of the prefab information, when \<open>getPrefabInfo\<close> returns no error.\<close>

definition mergePrefabInfo :: "'f golib \<Rightarrow> 'f PrefabInfo \<Rightarrow> 'f PrefabNode \<Rightarrow> 'f PrefabNode" where
  "mergePrefabInfo L prefabInfo prefab =
    (let prefab = prefab\<lparr>PrefabNode.Name := PrefabInfo.Name prefabInfo,
                         PrefabNode.Texture := PrefabInfo.Texture prefabInfo,
                         PrefabNode.Pivot := PrefabInfo.Pivot prefabInfo,
                         PrefabNode.ZIndex := PrefabInfo.ZIndex prefabInfo,
                         PrefabNode.ColliderType := PrefabInfo.ColliderType prefabInfo,
                         PrefabNode.ColliderPivot := PrefabInfo.ColliderPivot prefabInfo,
                         PrefabNode.ColliderParams := PrefabInfo.ColliderParams prefabInfo,
                         PrefabNode.ColliderParent := PrefabInfo.ColliderParent prefabInfo,
                         PrefabNode.Scale := \<lparr>Vec2.X = Vec2.X (PrefabInfo.Scale prefabInfo),
                                               Vec2.Y = Vec2.Y (PrefabInfo.Scale prefabInfo)\<rparr>\<rparr>
     in if f_eq L (PrefabNode.Ratation prefab) (f_of_int L 0) then
          prefab\<lparr>PrefabNode.Ratation := Rotation prefabInfo\<rparr>
        else prefab\<lparr>PrefabNode.Ratation := f_add L (PrefabNode.Ratation prefab) (Rotation prefabInfo)\<rparr>)"

text \<open>
  The local variables of \<open>buildPrefabNodes\<close>, with the converter (for its cache) and the
  files; \<open>prefabMap\<close>, a \<open>map[string]bool\<close> that only ever holds \<open>true\<close>, is the list of
  its keys.
\<close>

record 'f buildState =
  prefabs :: "'f PrefabNode list"
  prefabMap :: "string list"
  bconv :: "'f TSCNConverter"
  bworld :: world

definition buildPrefabNode ::
  "'f golib \<Rightarrow> 'f config \<Rightarrow> 'f buildState \<Rightarrow> 'f SpriteNode \<Rightarrow> 'f buildState" where
  "buildPrefabNode L cfg st sprite =
    (let prefab = prefabOfSprite L sprite in
     case getPrefabInfo L cfg (SpriteNode.Path sprite) (bconv st, bworld st) of
       (r, c', w') \<Rightarrow>
         (let prefab = (case r of Inr prefabInfo \<Rightarrow> mergePrefabInfo L prefabInfo prefab
                                 | Inl err \<Rightarrow> prefab);
              st = st\<lparr>bconv := c', bworld := w'\<rparr>
          in if PrefabNode.Name prefab \<notin> set (prefabMap st) then
               st\<lparr>prefabMap := prefabMap st @ [PrefabNode.Name prefab],
                  prefabs := prefabs st @ [prefab]\<rparr>
             else st))"

definition buildPrefabNodes ::
  "'f golib \<Rightarrow> 'f config \<Rightarrow> 'f TSCNConverter \<times> world
     \<Rightarrow> 'f PrefabNode list \<times> 'f TSCNConverter \<times> world" where
  "buildPrefabNodes L cfg cw =
    (case cw of (c, w) \<Rightarrow>
      (let st = foldl (buildPrefabNode L cfg)
                  \<lparr>prefabs = [], prefabMap = [], bconv = c, bworld = w\<rparr> (sprites c)
       in (prefabs st, bconv st, bworld st)))"

section \<open>Conversion\<close>

text \<open>
  \<open>convertTSCNToTileMap\<close>: open the file, reset the bounds, scan, then assemble. The range
  over the map \<open>c.sources\<close> visits its entries in an order the language leaves open, and
  \<open>sort.Slice\<close> then orders them by \<open>ID\<close>; the keys of a map being distinct, the result
  is the one sorted list of the entries, whatever the order of the visit.
\<close>

definition convertTSCNToTileMap ::
  "'f golib \<Rightarrow> 'f config \<Rightarrow> string \<Rightarrow> 'f TSCNConverter \<Rightarrow> world \<times> globals
     \<Rightarrow> ('f MapData option \<times> error option) outcome \<times> world \<times> globals" where
  "convertTSCNToTileMap L cfg filename c wg =
    (case wg of (w, g) \<Rightarrow>
     case osOpen filename w of
       (None, w') \<Rightarrow> (Returned (None, Some (ErrOpen filename)), w', g)
     | (Some content, w') \<Rightarrow>
        (let scanned = scanLines (1024 * 1024) content;
             g = g\<lparr>minTileX := 1000000, maxTileX := -1000000,
                   minTileY := 1000000, maxTileY := -1000000\<rparr>
         in case scanDocument L cfg (fst scanned)
                   \<lparr>conv = c, currentSection = '''', currentSubResource = '''',
                    format = 0, layers = []\<rparr> of
              None \<Rightarrow> (Panic, w', g)
            | Some st \<Rightarrow>
               (let c = finishRemaining (conv st) in
                if snd scanned then (Returned (None, Some ErrRead), w', g)
                else
                  (let tilesetSources = sort_key TileSource.ID (map snd (sources c)) in
                   case buildPrefabNodes L cfg (c, w') of
                     (prefabNodes, c', w'') \<Rightarrow>
                       (Returned
                          (Some \<lparr>TileMap = \<lparr>Format = scanState.format st,
                                             TileSize = tilemapTileSize cfg,
                                             TileSet = \<lparr>Sources = tilesetSources\<rparr>,
                                             Layers = scanState.layers st,
                                             WorldTileSize = \<lparr>Width = 0, Height = 0\<rparr>\<rparr>,
                                  Decorators = decorators c, Sprites = sprites c,
                                  Prefabs = prefabNodes\<rparr>,
                           None), w'', g)))))"

text \<open>
  \<open>ConvertTSCNToTileMap\<close> assigns to \<open>data.TileMap.Layers\<close> before it looks at \<open>err\<close>:
  with the nil \<open>data\<close> that \<open>convertTSCNToTileMap\<close> returns beside an error, the
  assignment is a nil pointer dereference, a panic.
\<close>

definition ConvertTSCNToTileMap ::
  "'f golib \<Rightarrow> 'f config \<Rightarrow> string \<Rightarrow> 'f TSCNConverter \<Rightarrow> world \<times> globals
     \<Rightarrow> ('f MapData option \<times> error option) outcome \<times> world \<times> globals" where
  "ConvertTSCNToTileMap L cfg filename c wg =
    (case convertTSCNToTileMap L cfg filename c wg of
       (Panic, w, g) \<Rightarrow> (Panic, w, g)
     | (Returned (None, err), w, g) \<Rightarrow> (Panic, w, g)
     | (Returned (Some data, err), w, g) \<Rightarrow>
        (case parseLayersFromTSCN L cfg filename (w, g) of
           (ls, w', g') \<Rightarrow>
             (let data = data\<lparr>TileMap := (TileMap data)\<lparr>Layers :=
                            (case ls of Some l \<Rightarrow> l | None \<Rightarrow> [])\<rparr>\<rparr>;
                  diffX = wrap64 (wrap64 (maxTileX g' - minTileX g') + 1);
                  diffY = wrap64 (wrap64 (maxTileY g' - minTileY g') + 1)
              in if go_rem diffX 2 \<noteq> 0 \<or> go_rem diffY 2 \<noteq> 0 then
                   (Returned (Some data, Some (ErrOddSize diffX diffY)), w', g')
                 else
                   (Returned (Some (data\<lparr>TileMap := (TileMap data)\<lparr>WorldTileSize :=
                                 \<lparr>Width = diffX, Height = diffY\<rparr>\<rparr>\<rparr>), err), w', g'))))"

definition Parse ::
  "'f golib \<Rightarrow> 'f config \<Rightarrow> string \<Rightarrow> world \<times> globals
     \<Rightarrow> ('f MapData option \<times> error option) outcome \<times> world \<times> globals" where
  "Parse L cfg inputFile wg =
    (if inputFile = '''' then (Returned (None, Some ErrInputEmpty), fst wg, snd wg)
     else ConvertTSCNToTileMap L cfg inputFile newTSCNConverter wg)"


section \<open>A library to run the parser on\<close>

text \<open>
  An instance of the library that computes, for running the parser on concrete
  documents: white space is ASCII white space, the matcher is a backtracking matcher with
  Go's leftmost-first preference, and a floating point number is an integer
  (\<open>ParseFloat\<close> reads decimal integers only and division truncates). The theorems do not
  depend on it.
\<close>

definition isSpace :: "char \<Rightarrow> bool" where
  "isSpace ch = (ch \<in> set [CHR 0x09, CHR 0x0A, CHR 0x0B, CHR 0x0C, CHR 0x0D, CHR '' ''])"

definition isDigit :: "char \<Rightarrow> bool" where
  "isDigit ch = (48 \<le> (of_char ch :: nat) \<and> (of_char ch :: nat) \<le> 57)"

definition isWord :: "char \<Rightarrow> bool" where
  "isWord ch = (let n = (of_char ch :: nat) in
      (48 \<le> n \<and> n \<le> 57) \<or> (65 \<le> n \<and> n \<le> 90) \<or> (97 \<le> n \<and> n \<le> 122) \<or> n = 95)"

fun inCls :: "cls \<Rightarrow> char \<Rightarrow> bool" where
  "inCls (Not c) ch = (ch \<noteq> c)"
| "inCls Space ch = (isSpace ch \<and> ch \<noteq> CHR 0x0B)"
| "inCls Word ch = isWord ch"
| "inCls Digit ch = isDigit ch"

text \<open>
  \<open>matchAtoms as grp s\<close>: the preferred way for the atoms to match a prefix of \<open>s\<close>, as
  the captured groups and what is left of \<open>s\<close>; \<open>grp\<close> is the input where the open group
  began. A repetition takes one more character before it tries to go on without it.
\<close>

fun matchAtoms :: "atom list \<Rightarrow> string option \<Rightarrow> string \<Rightarrow> (string list \<times> string) option" where
  "matchAtoms [] grp s = Some ([], s)"
| "matchAtoms (Lit l # as) grp s =
     (if HasPrefix s l then matchAtoms as grp (drop (length l) s) else None)"
| "matchAtoms (One c # as) grp [] = None"
| "matchAtoms (One c # as) grp (ch # s) =
     (if inCls c ch then matchAtoms as grp s else None)"
| "matchAtoms (Plus c # as) grp [] = None"
| "matchAtoms (Plus c # as) grp (ch # s) =
     (if inCls c ch then
        (case matchAtoms (Plus c # as) grp s of
           Some r \<Rightarrow> Some r
         | None \<Rightarrow> matchAtoms as grp s)
      else None)"
| "matchAtoms (Star c # as) grp [] = matchAtoms as grp []"
| "matchAtoms (Star c # as) grp (ch # s) =
     (if inCls c ch then
        (case matchAtoms (Star c # as) grp s of
           Some r \<Rightarrow> Some r
         | None \<Rightarrow> matchAtoms as grp (ch # s))
      else matchAtoms as grp (ch # s))"
| "matchAtoms (GOpen # as) grp s = matchAtoms as (Some s) s"
| "matchAtoms (GClose # as) grp s =
     (case matchAtoms as None s of
        None \<Rightarrow> None
      | Some (caps, rest) \<Rightarrow>
          (case grp of None \<Rightarrow> Some (caps, rest)
           | Some s0 \<Rightarrow> Some (take (length s0 - length s) s0 # caps, rest)))"

text \<open>The leftmost match: the whole match, then the groups, and what follows the match.\<close>

definition matchHere :: "regex \<Rightarrow> string \<Rightarrow> (string list \<times> string) option" where
  "matchHere re s =
     (case matchAtoms re None s of
        None \<Rightarrow> None
      | Some (caps, rest) \<Rightarrow> Some (take (length s - length rest) s # caps, rest))"

fun findFirst :: "regex \<Rightarrow> string \<Rightarrow> (string list \<times> string) option" where
  "findFirst re [] = matchHere re []"
| "findFirst re (ch # s) =
     (case matchHere re (ch # s) of
        Some r \<Rightarrow> Some r
      | None \<Rightarrow> findFirst re s)"

fun findAll :: "nat \<Rightarrow> regex \<Rightarrow> string \<Rightarrow> string list list" where
  "findAll 0 re s = []"
| "findAll (Suc n) re s =
     (case findFirst re s of
        None \<Rightarrow> []
      | Some (m, rest) \<Rightarrow> m # (if length rest < length s then findAll n re rest else []))"

definition digitsValue :: "string \<Rightarrow> int" where
  "digitsValue ds = foldl (\<lambda>acc ch. 10 * acc + (int (of_char ch) - 48)) 0 ds"

text \<open>An optional sign, then one decimal digit or more; \<open>None\<close> is a syntax error.\<close>

definition decimal :: "string \<Rightarrow> int option" where
  "decimal s =
    (let neg = HasPrefix s ''-'';
         ds = (if HasPrefix s ''-'' \<or> HasPrefix s ''+'' then drop 1 s else s)
     in if ds \<noteq> [] \<and> list_all isDigit ds
        then Some (if neg then - digitsValue ds else digitsValue ds) else None)"

definition parseIntBits :: "nat \<Rightarrow> string \<Rightarrow> int \<times> bool" where
  "parseIntBits n s =
    (case decimal s of
       None \<Rightarrow> (0, False)
     | Some v \<Rightarrow> if v < - (2 ^ (n - 1)) then (- (2 ^ (n - 1)), False)
                 else if v > 2 ^ (n - 1) - 1 then (2 ^ (n - 1) - 1, False)
                 else (v, True))"

function decDigits :: "nat \<Rightarrow> string" where
  "decDigits n = (if n < 10 then [''0123456789'' ! n]
                  else decDigits (n div 10) @ [''0123456789'' ! (n mod 10)])"
  by pat_completeness auto
termination
  by (relation "measure id") auto

declare decDigits.simps [simp del]

definition runLib :: "int golib" where
  "runLib = \<lparr>
     TrimSpace = (\<lambda>s. rev (dropWhile isSpace (rev (dropWhile isSpace s)))),
     FindStringSubmatch = (\<lambda>re s. case findFirst re s of None \<Rightarrow> [] | Some (m, rest) \<Rightarrow> m),
     FindAllStringSubmatch = (\<lambda>re s. findAll (Suc (length s)) re s),
     Atoi = parseIntBits 64,
     ParseInt32 = parseIntBits 32,
     ParseFloat = (\<lambda>s. case decimal s of None \<Rightarrow> (0, False) | Some v \<Rightarrow> (v, True)),
     Itoa = (\<lambda>i. if i < 0 then ''-'' @ decDigits (nat (- i)) else decDigits (nat i)),
     filepathJoin = (\<lambda>dir rel. dir @ ''/'' @ rel),
     f_of_int = (\<lambda>i. i),
     f_to_int = (\<lambda>x. x),
     f_neg = (\<lambda>x. - x),
     f_add = (\<lambda>x y. x + y),
     f_sub = (\<lambda>x y. x - y),
     f_div = (\<lambda>x y. if y = 0 then 0 else sgn x * sgn y * (\<bar>x\<bar> div \<bar>y\<bar>)),
     f_lt = (\<lambda>x y. x < y),
     f_eq = (\<lambda>x y. x = y)\<rparr>"


section \<open>Notions used in the statements\<close>

text \<open>
  The tile coordinates \<open>(tileX, tileY)\<close> held by a flat list of groups
  \<open>[source_id, tile_x, tile_y, atlas_x, atlas_y]\<close>, and the placements of a list of layers.
\<close>

fun tilesOf :: "int list \<Rightarrow> (int \<times> int) list" where
  "tilesOf (s # x # y # ax # ay # rest) = (x, y) # tilesOf rest"
| "tilesOf rest = []"

definition placements :: "Layer list \<Rightarrow> (int \<times> int) list" where
  "placements ls = concat (map (\<lambda>l. tilesOf (TileData l)) ls)"

text \<open>The width and the height of the bounding box of a non-empty list of placements.\<close>

definition boxWidth :: "(int \<times> int) list \<Rightarrow> int" where
  "boxWidth ts = Max (set (map fst ts)) - Min (set (map fst ts)) + 1"

definition boxHeight :: "(int \<times> int) list \<Rightarrow> int" where
  "boxHeight ts = Max (set (map snd ts)) - Min (set (map snd ts)) + 1"

section \<open>Notions used in the proofs\<close>

text \<open>
  The sign extension of a 16-bit field and the four comparisons that track the bounds,
  as \<open>decodeTile\<close> has them; the pair that a decoded position is emitted as; and the
  invariant of the layer pass: the placements emitted so far are the emitted forms of
  decoded positions, each in the 16-bit range, and the four bounds are the extremes of
  those positions and of the initial values \<open>1000000\<close> and \<open>-1000000\<close>.
\<close>

definition sext16 :: "int \<Rightarrow> int" where
  "sext16 v = (if v \<ge> 0x8000 then wrap64 (v - 0x10000) else v)"

definition trackBounds :: "int \<Rightarrow> int \<Rightarrow> globals \<Rightarrow> globals" where
  "trackBounds tx ty g =
    (let g = (if tx < minTileX g then g\<lparr>minTileX := tx\<rparr> else g);
         g = (if tx > maxTileX g then g\<lparr>maxTileX := tx\<rparr> else g);
         g = (if ty < minTileY g then g\<lparr>minTileY := ty\<rparr> else g);
         g = (if ty > maxTileY g then g\<lparr>maxTileY := ty\<rparr> else g)
     in g)"

definition emitTile :: "int \<Rightarrow> int \<Rightarrow> int \<times> int \<Rightarrow> int \<times> int" where
  "emitTile ox oy d = (wrap64 (fst d + ox), wrap64 (- wrap64 (snd d + oy)))"

definition boundsInv :: "int \<Rightarrow> int \<Rightarrow> globals \<Rightarrow> (int \<times> int) list \<Rightarrow> bool" where
  "boundsInv ox oy g ts =
    (\<exists>D. ts = map (emitTile ox oy) D
       \<and> (\<forall>d\<in>set D. -32768 \<le> fst d \<and> fst d \<le> 32767 \<and> -32768 \<le> snd d \<and> snd d \<le> 32767)
       \<and> minTileX g = Min (insert 1000000 (fst ` set D))
       \<and> maxTileX g = Max (insert (-1000000) (fst ` set D))
       \<and> minTileY g = Min (insert 1000000 (snd ` set D))
       \<and> maxTileY g = Max (insert (-1000000) (snd ` set D)))"

section \<open>Documents to run the parser on\<close>

text \<open>
  Small documents and the files that hold them, for the theorems that run the parser: a
  tile map whose two tiles span a box two wide and one high, a tile map without tiles,
  the same two kinds of tile map with one more line, a \<open>tile_data\<close> line whose closing
  parenthesis comes before \<open>PackedInt32Array(\<close>, and no file at all under any other name.
\<close>

definition oddDocument :: string where
  "oddDocument = ''[node name=\"TileMap\" type=\"TileMap\"]'' @ [CHR 0x0A] @
     ''format = 2'' @ [CHR 0x0A] @
     ''layer_0/name = \"ground\"'' @ [CHR 0x0A] @
     ''layer_0/tile_data = PackedInt32Array(65536, 0, 0, 65537, 0, 0)'' @ [CHR 0x0A]"

definition bareDocument :: string where
  "bareDocument = ''[node name=\"TileMap\" type=\"TileMap\"]'' @ [CHR 0x0A] @
     ''format = 2'' @ [CHR 0x0A]"

definition oddBadDocument :: string where
  "oddBadDocument = ''[node name=\"TileMap\" type=\"TileMap\"]'' @ [CHR 0x0A] @
     ''layer_0/name = \"ground\"'' @ [CHR 0x0A] @
     ''layer_0/tile_data = PackedInt32Array(0, 0, 0)'' @ [CHR 0x0A] @
     ''layer_1/tile_data) = PackedInt32Array('' @ [CHR 0x0A]"

definition bareBadDocument :: string where
  "bareBadDocument = ''[node name=\"TileMap\" type=\"TileMap\"]'' @ [CHR 0x0A] @
     ''layer_0/tile_data = ) PackedInt32Array('' @ [CHR 0x0A]"

text \<open>
  A document with a tile atlas that has a physics polygon sixteen wide and seventeen high,
  a tile set that declares source 3 before source 0, and a tile map whose two tiles span a
  box two wide and two high.
\<close>

definition atlasDocument :: string where
  "atlasDocument =
     ''[sub_resource type=\"TileSetAtlasSource\" id=\"A\"]'' @ [CHR 0x0A] @
     ''0:0/0/physics_layer_0/polygon_0/points = PackedVector2Array(-8, -8, 8, -8, 8, 9, -8, 9)''
       @ [CHR 0x0A] @
     ''[sub_resource type=\"TileSet\" id=\"T\"]'' @ [CHR 0x0A] @
     ''sources/3 = SubResource(\"A\")'' @ [CHR 0x0A] @
     ''sources/0 = SubResource(\"A\")'' @ [CHR 0x0A] @
     ''[node name=\"TileMap\" type=\"TileMap\"]'' @ [CHR 0x0A] @
     ''layer_0/name = \"g\"'' @ [CHR 0x0A] @
     ''layer_0/tile_data = PackedInt32Array(0, 0, 0, 65537, 0, 0)'' @ [CHR 0x0A]"

definition sampleWorld :: world where
  "sampleWorld = \<lparr>files = (\<lambda>p. if p = ''odd.tscn'' then Some oddDocument
                               else if p = ''bare.tscn'' then Some bareDocument
                               else if p = ''oddbad.tscn'' then Some oddBadDocument
                               else if p = ''barebad.tscn'' then Some bareBadDocument
                               else if p = ''atlas.tscn'' then Some atlasDocument
                               else None),
                  opened = []\<rparr>"

definition zeroGlobals :: globals where
  "zeroGlobals = \<lparr>minTileX = 0, maxTileX = 0, minTileY = 0, maxTileY = 0, tileTotalCount = 0\<rparr>"

text \<open>
  What the scan of \<open>atlasDocument\<close> leaves behind, and the map that \<open>Parse\<close> makes of
  the document.
\<close>

definition atlasPoints :: "int Vec2 list" where
  "atlasPoints = [\<lparr>Vec2.X = - 8, Vec2.Y = - 8\<rparr>, \<lparr>Vec2.X = 8, Vec2.Y = - 8\<rparr>,
                  \<lparr>Vec2.X = 8, Vec2.Y = 9\<rparr>, \<lparr>Vec2.X = - 8, Vec2.Y = 9\<rparr>]"

definition atlasSource :: "int \<Rightarrow> int TileSource" where
  "atlasSource i = \<lparr>TileSource.ID = i, TexturePath = ''unknown'',
       TileSource.Tiles = [\<lparr>TileInfo.AtlasCoords = \<lparr>Vec2i.X = 0, Vec2i.Y = 0\<rparr>,
                             Physics = \<lparr>CollisionPoints = atlasPoints\<rparr>\<rparr>]\<rparr>"

definition atlasScanned :: "int scanState" where
  "atlasScanned =
    \<lparr>conv = \<lparr>tileSize = \<lparr>Width = 16, Height = 17\<rparr>,
              sources = [(3, atlasSource 3), (0, atlasSource 0)],
              extResources = [], subResourceTextures = [],
              tilePhysicsData = [(''A'', atlasPoints)],
              decorators = [], currentDecorator = None, sprites = [], currentSprite = None,
              prefabCache = [], subResourceShapes = []\<rparr>,
     currentSection = ''tilemap'', currentSubResource = ''T'', format = 0,
     layers = [\<lparr>Layer.ID = 0, Layer.Name = ''layer_0'',
                Layer.Tiles = [\<lparr>TileCoords = \<lparr>Vec2i.X = 0, Vec2i.Y = 0\<rparr>, SourceID = 0,
                                 TileInstance.AtlasCoords = \<lparr>Vec2i.X = 65537, Vec2i.Y = 0\<rparr>\<rparr>],
                Layer.ZIndex = 0, Layer.TileData = []\<rparr>]\<rparr>"

definition atlasData :: "int MapData" where
  "atlasData =
    \<lparr>TileMap = \<lparr>Format = 0, TileSize = \<lparr>Width = 16, Height = 16\<rparr>,
                 TileSet = \<lparr>Sources = [atlasSource 0, atlasSource 3]\<rparr>,
                 Layers = [\<lparr>Layer.ID = 0, Layer.Name = ''g'', Layer.Tiles = [],
                            Layer.ZIndex = 0,
                            Layer.TileData = [0, 0, 0, 0, 0, 0, 1, - 1, 0, 0]\<rparr>],
                 WorldTileSize = \<lparr>Width = 2, Height = 2\<rparr>\<rparr>,
     Decorators = [], Sprites = [], Prefabs = []\<rparr>"

text \<open>
  The invariant of the table of tile sources: it has one entry for a key, and the entry
  carries its key as its id.
\<close>

definition sourcesInv :: "(int \<times> 'f TileSource) list \<Rightarrow> bool" where
  "sourcesInv tbl = (distinct (map fst tbl) \<and> (\<forall>e\<in>set tbl. TileSource.ID (snd e) = fst e))"

text \<open>
  A prefab file, a world that holds it under the path that the declared path
  \<open>res://scenes/tree.tscn\<close> resolves to, a configuration with that prefabs directory, and
  the information that \<open>parsePrefabFile\<close> reads from the file.
\<close>

definition treePrefab :: string where
  "treePrefab = ''[node name=\"Tree\" type=\"Node2D\"]'' @ [CHR 0x0A]"

definition prefabWorld :: world where
  "prefabWorld = \<lparr>files = (\<lambda>p. if p = ''prefabs/tree.tscn'' then Some treePrefab else None),
                  opened = []\<rparr>"

definition prefabConfig :: "int config" where
  "prefabConfig = (defaultConfig runLib)\<lparr>prefabsDirectory := ''prefabs''\<rparr>"

definition treeInfo :: "int PrefabInfo" where
  "treeInfo = \<lparr>PrefabInfo.Name = ''Tree'', PrefabInfo.Pivot = \<lparr>Vec2.X = 0, Vec2.Y = 0\<rparr>,
       PrefabInfo.ZIndex = 0, PrefabInfo.Scale = \<lparr>Vec2.X = 1, Vec2.Y = 1\<rparr>, Rotation = 0,
       PrefabInfo.ColliderType = [], PrefabInfo.ColliderPivot = \<lparr>Vec2.X = 0, Vec2.Y = 0\<rparr>,
       PrefabInfo.ColliderParams = [], PrefabInfo.Texture = [],
       PrefabInfo.ColliderParent = []\<rparr>"

section \<open>The tile codec: proofs\<close>

lemma wrap64_id: "- (2^63) \<le> i \<Longrightarrow> i < 2^63 \<Longrightarrow> wrap64 i = i"
  unfolding wrap64_def by (simp add: signed_take_bit_int_eq_self)

lemma and_ffff: "(i::int) AND 0xFFFF = take_bit 16 i"
proof -
  have "(0xFFFF::int) = mask 16" by (simp add: mask_eq_exp_minus_1)
  then show ?thesis by (simp only: take_bit_eq_mask)
qed

lemma enc_low: "(push_bit 16 (y AND 0xFFFF) OR (x AND 0xFFFF)) AND (0xFFFF::int) = take_bit 16 x"
  unfolding and_ffff
  by (auto simp add: bit_eq_iff bit_simps)

lemma enc_high: "drop_bit 16 (push_bit 16 (y AND 0xFFFF) OR (x AND 0xFFFF)) AND (0xFFFF::int) = take_bit 16 y"
  unfolding and_ffff
  by (auto simp add: bit_eq_iff bit_simps)

lemma sign16:
  assumes "-32768 \<le> x" and "x \<le> 32767"
  shows "(if take_bit 16 x \<ge> 0x8000 then wrap64 (take_bit 16 x - 0x10000)
          else take_bit 16 (x::int)) = x"
proof (cases "0 \<le> x")
  case True
  with assms have "take_bit 16 x = x" by (simp add: take_bit_eq_mod)
  then show ?thesis using True assms by simp
next
  case False
  have "x mod 65536 = (x + 65536) mod 65536" by simp
  also have "\<dots> = x + 65536" using assms False by (intro mod_pos_pos_trivial) auto
  finally have t: "take_bit 16 x = x + 65536" by (simp add: take_bit_eq_mod)
  have "wrap64 x = x" using assms False by (intro wrap64_id) auto
  then show ?thesis using t assms False by simp
qed

lemma decodeTile_length: "length (snd (decodeTile ox oy p s a g)) = 5"
  by (simp add: decodeTile_def Let_def)


text \<open>
  C1. A position \<open>(x, y)\<close> with both components in \<open>[-32768, 32767]\<close>, encoded as
  \<open>((y&0xFFFF)<<16)|(x&0xFFFF)\<close> and given to \<open>convertTileDataFormat\<close> in the group
  \<open>[encodedPos, sourceId, encodedAtlas]\<close>, comes out as
  \<open>[sourceId, x, -y, atlasX, atlasY]\<close> with \<open>atlasX = encodedAtlas & 0xFFFF\<close> and
  \<open>atlasY = (encodedAtlas >> 16) & 0xFFFF\<close>, when the offset in tiles is \<open>(0, 0)\<close>, as it
  is for the default pixel offset \<open>(0, 0)\<close>.
\<close>

theorem tile_codec_roundtrip:
  assumes "-32768 \<le> x" and "x \<le> 32767" and "-32768 \<le> y" and "y \<le> 32767"
    and "tileOffsets L cfg = (0, 0)"
  shows "snd (convertTileDataFormat L cfg
                [push_bit 16 (y AND 0xFFFF) OR (x AND 0xFFFF), sourceId, encodedAtlas] g)
         = [sourceId, x, - y, encodedAtlas AND 0xFFFF, drop_bit 16 encodedAtlas AND 0xFFFF]"
proof -
  let ?e = "push_bit 16 (y AND 0xFFFF) OR (x AND 0xFFFF)"
  have X: "(if ?e AND 0xFFFF \<ge> 0x8000 then wrap64 ((?e AND 0xFFFF) - 0x10000)
            else ?e AND 0xFFFF) = x"
    unfolding enc_low using sign16[OF assms(1,2)] by simp
  have Y: "(if drop_bit 16 ?e AND 0xFFFF \<ge> 0x8000
            then wrap64 ((drop_bit 16 ?e AND 0xFFFF) - 0x10000)
            else drop_bit 16 ?e AND 0xFFFF) = y"
    unfolding enc_high using sign16[OF assms(3,4)] by simp
  have wx: "wrap64 x = x" using assms by (intro wrap64_id) auto
  have wy: "wrap64 y = y" using assms by (intro wrap64_id) auto
  have wny: "wrap64 (- y) = - y" using assms by (intro wrap64_id) auto
  have "snd (decodeTile 0 0 ?e sourceId encodedAtlas g)
      = [sourceId, x, - y, encodedAtlas AND 0xFFFF, drop_bit 16 encodedAtlas AND 0xFFFF]"
    unfolding decodeTile_def Let_def X Y by (simp add: wx wy wny)
  then show ?thesis
    unfolding convertTileDataFormat_def assms(5)
    by (simp add: convertLoop.simps[of _ _ _ 0] convertLoop.simps[of _ _ _ 3] split: prod.splits)
qed

lemma runLib_default_offsets: "tileOffsets runLib (defaultConfig runLib) = (0, 0)"
  by (simp add: tileOffsets_def defaultConfig_def runLib_def)

theorem tile_codec_roundtrip_witness:
  "(-32768::int) \<le> 5 \<and> (5::int) \<le> 32767 \<and> (-32768::int) \<le> -3 \<and> (-3::int) \<le> 32767
   \<and> tileOffsets runLib (defaultConfig runLib) = (0, 0)
   \<and> snd (convertTileDataFormat runLib (defaultConfig runLib)
          [push_bit 16 ((-3) AND 0xFFFF) OR (5 AND 0xFFFF), 7, 196610]
          \<lparr>minTileX = 0, maxTileX = 0, minTileY = 0, maxTileY = 0, tileTotalCount = 0\<rparr>)
       = [7, 5, 3, 2, 3]"
  using tile_codec_roundtrip[of 5 "-3" runLib "defaultConfig runLib" 7 196610]
  by (simp add: runLib_default_offsets)




section \<open>The bounds: proofs\<close>

lemma and_ffff_range: "0 \<le> (i::int) AND 0xFFFF \<and> i AND 0xFFFF \<le> 65535"
  unfolding and_ffff by (simp add: take_bit_eq_mod)

lemma sext16_range:
  assumes "0 \<le> v" and "v \<le> (65535::int)"
  shows "-32768 \<le> (if v \<ge> 0x8000 then wrap64 (v - 0x10000) else v)
       \<and> (if v \<ge> 0x8000 then wrap64 (v - 0x10000) else v) \<le> 32767"
proof (cases "v \<ge> 0x8000")
  case True
  have "wrap64 (v - 0x10000) = v - 0x10000" using assms True by (intro wrap64_id) auto
  then show ?thesis using True assms by simp
next
  case False
  then show ?thesis using assms by simp
qed

text \<open>What one pass of the loop body does to the bounds and what it emits.\<close>

lemma trackBounds_fields:
  "minTileX (trackBounds tx ty g) = min (minTileX g) tx"
  "maxTileX (trackBounds tx ty g) = max (maxTileX g) tx"
  "minTileY (trackBounds tx ty g) = min (minTileY g) ty"
  "maxTileY (trackBounds tx ty g) = max (maxTileY g) ty"
  "tileTotalCount (trackBounds tx ty g) = tileTotalCount g"
  by (simp_all add: trackBounds_def Let_def)

lemma decodeTile_alt:
  "decodeTile ox oy p s a g =
    ((trackBounds (sext16 (p AND 0xFFFF)) (sext16 (drop_bit 16 p AND 0xFFFF)) g)
        \<lparr>tileTotalCount := wrap64 (tileTotalCount g + 1)\<rparr>,
     [s, wrap64 (sext16 (p AND 0xFFFF) + ox), wrap64 (- wrap64 (sext16 (drop_bit 16 p AND 0xFFFF) + oy)),
      a AND 0xFFFF, drop_bit 16 a AND 0xFFFF])"
  unfolding decodeTile_def trackBounds_def sext16_def Let_def
  by (simp add: trackBounds_def)

lemma decodeTile_effect:
  assumes "decodeTile ox oy p s a g = (g', grp)"
  shows "\<exists>tx ty. -32768 \<le> tx \<and> tx \<le> 32767 \<and> -32768 \<le> ty \<and> ty \<le> 32767
     \<and> grp = [s, wrap64 (tx + ox), wrap64 (- wrap64 (ty + oy)), a AND 0xFFFF, drop_bit 16 a AND 0xFFFF]
     \<and> minTileX g' = min (minTileX g) tx \<and> maxTileX g' = max (maxTileX g) tx
     \<and> minTileY g' = min (minTileY g) ty \<and> maxTileY g' = max (maxTileY g) ty"
proof -
  let ?tx = "sext16 (p AND 0xFFFF)" and ?ty = "sext16 (drop_bit 16 p AND 0xFFFF)"
  have rx: "-32768 \<le> ?tx \<and> ?tx \<le> 32767"
    unfolding sext16_def using sext16_range[of "p AND 0xFFFF"] and_ffff_range[of p] by blast
  have ry: "-32768 \<le> ?ty \<and> ?ty \<le> 32767"
    unfolding sext16_def
    using sext16_range[of "drop_bit 16 p AND 0xFFFF"] and_ffff_range[of "drop_bit 16 p"] by blast
  have g': "g' = (trackBounds ?tx ?ty g)\<lparr>tileTotalCount := wrap64 (tileTotalCount g + 1)\<rparr>"
    and grp: "grp = [s, wrap64 (?tx + ox), wrap64 (- wrap64 (?ty + oy)), a AND 0xFFFF, drop_bit 16 a AND 0xFFFF]"
    using assms unfolding decodeTile_alt by simp_all
  show ?thesis
    apply (rule exI[of _ ?tx], rule exI[of _ ?ty])
    using rx ry grp by (simp add: g' trackBounds_fields)
qed



lemma tilesOf_append:
  "length a mod 5 = 0 \<Longrightarrow> tilesOf (a @ b) = tilesOf a @ tilesOf b"
  by (induction a rule: tilesOf.induct) simp_all

lemma boundsInv_sentinel:
  "minTileX g = 1000000 \<Longrightarrow> maxTileX g = -1000000 \<Longrightarrow> minTileY g = 1000000
   \<Longrightarrow> maxTileY g = -1000000 \<Longrightarrow> boundsInv ox oy g []"
  unfolding boundsInv_def by (intro exI[of _ "[]"]) simp

lemma boundsInv_empty:
  assumes "boundsInv ox oy g []"
  shows "minTileX g = 1000000 \<and> maxTileX g = -1000000 \<and> minTileY g = 1000000 \<and> maxTileY g = -1000000"
  using assms unfolding boundsInv_def by auto

lemma Min_insert_snoc:
  assumes "finite A"
  shows "min (Min (insert (a::int) A)) x = min a (Min (insert x A))"
proof (cases "A = {}")
  case True
  then show ?thesis by simp
next
  case False
  then show ?thesis using assms by (simp add: min.assoc min.commute min.left_commute)
qed

lemma Max_insert_snoc:
  assumes "finite A"
  shows "max (Max (insert (a::int) A)) x = max a (Max (insert x A))"
proof (cases "A = {}")
  case True
  then show ?thesis by simp
next
  case False
  then show ?thesis using assms by (simp add: max.assoc max.commute max.left_commute)
qed

lemma boundsInv_step:
  assumes inv: "boundsInv ox oy g ts" and d: "decodeTile ox oy p s a g = (g', grp)"
  shows "boundsInv ox oy g' (ts @ tilesOf grp)"
proof -
  from decodeTile_effect[OF d] obtain tx ty where
    r: "-32768 \<le> tx" "tx \<le> 32767" "-32768 \<le> ty" "ty \<le> 32767"
    and grp: "grp = [s, wrap64 (tx + ox), wrap64 (- wrap64 (ty + oy)), a AND 0xFFFF, drop_bit 16 a AND 0xFFFF]"
    and b: "minTileX g' = min (minTileX g) tx" "maxTileX g' = max (maxTileX g) tx"
           "minTileY g' = min (minTileY g) ty" "maxTileY g' = max (maxTileY g) ty"
    by blast
  from inv obtain D where D: "ts = map (emitTile ox oy) D"
    "\<forall>d\<in>set D. -32768 \<le> fst d \<and> fst d \<le> 32767 \<and> -32768 \<le> snd d \<and> snd d \<le> 32767"
    "minTileX g = Min (insert 1000000 (fst ` set D))"
    "maxTileX g = Max (insert (-1000000) (fst ` set D))"
    "minTileY g = Min (insert 1000000 (snd ` set D))"
    "maxTileY g = Max (insert (-1000000) (snd ` set D))"
    unfolding boundsInv_def by blast
  have t: "tilesOf grp = [emitTile ox oy (tx, ty)]" by (simp add: grp emitTile_def)
  show ?thesis
    unfolding boundsInv_def
  proof (intro exI[of _ "D @ [(tx, ty)]"] conjI)
    show "ts @ tilesOf grp = map (emitTile ox oy) (D @ [(tx, ty)])" by (simp add: D(1) t)
    show "\<forall>d\<in>set (D @ [(tx, ty)]). -32768 \<le> fst d \<and> fst d \<le> 32767 \<and> -32768 \<le> snd d \<and> snd d \<le> 32767"
      using D(2) r by auto
    show "minTileX g' = Min (insert 1000000 (fst ` set (D @ [(tx, ty)])))"
      by (simp add: b D Min_insert_snoc)
    show "maxTileX g' = Max (insert (-1000000) (fst ` set (D @ [(tx, ty)])))"
      by (simp add: b D Max_insert_snoc)
    show "minTileY g' = Min (insert 1000000 (snd ` set (D @ [(tx, ty)])))"
      by (simp add: b D Min_insert_snoc)
    show "maxTileY g' = Max (insert (-1000000) (snd ` set (D @ [(tx, ty)])))"
      by (simp add: b D Max_insert_snoc)
  qed
qed

lemma convertLoop_inv:
  assumes "boundsInv ox oy g ts" and "length acc mod 5 = 0"
    and "convertLoop ox oy td i g acc = (g', out)"
  shows "\<exists>new. tilesOf out = tilesOf acc @ new \<and> boundsInv ox oy g' (ts @ new)"
  using assms
proof (induction ox oy td i g acc arbitrary: ts rule: convertLoop.induct)
  case (1 ox oy tileData i g newData)
  show ?case
  proof (cases "i < length tileData \<and> \<not> i + 2 \<ge> length tileData")
    case True
    obtain g1 grp where d:
      "decodeTile ox oy (tileData ! i) (tileData ! (i + 1)) (tileData ! (i + 2)) g = (g1, grp)"
      by (cases "decodeTile ox oy (tileData ! i) (tileData ! (i + 1)) (tileData ! (i + 2)) g")
    have l: "length grp = 5" using decodeTile_length[of ox oy _ _ _ g] d by (metis snd_conv)
    have step: "boundsInv ox oy g1 (ts @ tilesOf grp)" by (rule boundsInv_step[OF "1.prems"(1) d])
    have m: "length (newData @ grp) mod 5 = 0" using "1.prems"(2) l by simp
    have rec: "convertLoop ox oy tileData (i + 3) g1 (newData @ grp) = (g', out)"
      using "1.prems"(3) True d by (subst (asm) convertLoop.simps) simp
    from "1.IH"[OF _ _ d[symmetric] step m rec] True
    obtain new where n: "tilesOf out = tilesOf (newData @ grp) @ new"
      "boundsInv ox oy g' ((ts @ tilesOf grp) @ new)" by auto
    have "tilesOf out = tilesOf newData @ (tilesOf grp @ new)"
      using n(1) tilesOf_append[OF "1.prems"(2), of grp] by simp
    moreover have "boundsInv ox oy g' (ts @ (tilesOf grp @ new))" using n(2) by simp
    ultimately show ?thesis by blast
  next
    case False
    then have "g' = g \<and> out = newData"
      using "1.prems"(3) by (subst (asm) convertLoop.simps) (auto split: if_splits)
    then show ?thesis using "1.prems"(1) by (intro exI[of _ "[]"]) simp
  qed
qed

lemma convertTileDataFormat_inv:
  assumes "boundsInv ox oy g ts" and "tileOffsets L cfg = (ox, oy)"
    and "convertTileDataFormat L cfg td g = (g', out)"
  shows "boundsInv ox oy g' (ts @ tilesOf out)"
proof -
  have "convertLoop ox oy td 0 g [] = (g', out)"
    using assms(2,3) by (simp add: convertTileDataFormat_def)
  from convertLoop_inv[OF assms(1) _ this] show ?thesis by auto
qed



lemma placements_snoc: "placements (ls @ [l]) = placements ls @ tilesOf (TileData l)"
  by (simp add: placements_def)

lemma layerName_layers [simp]: "layerState.layers (layerName L line st) = layerState.layers st"
  by (simp add: layerName_def Let_def split: prod.splits bool.splits)

lemma layerZIndex_layers [simp]: "layerState.layers (layerZIndex L line st) = layerState.layers st"
  by (simp add: layerZIndex_def Let_def split: prod.splits bool.splits)

lemma layerTileData_inv:
  assumes "boundsInv ox oy g (placements (layerState.layers st))"
    and "tileOffsets L cfg = (ox, oy)"
    and "layerTileData L cfg line (st, g) = (st', g')"
  shows "boundsInv ox oy g' (placements (layerState.layers st'))"
proof (cases "Contains line ''/tile_data = PackedInt32Array('' \<and> currentLayerID st \<ge> 0
         \<and> LastIndex line '')'' > Index line ''PackedInt32Array('' + int (length ''PackedInt32Array('')")
  case False
  then have "st' = st \<and> g' = g"
    using assms(3) by (auto simp: layerTileData_def Let_def split: if_splits)
  then show ?thesis using assms(1) by simp
next
  case True
  show ?thesis
  proof (cases "slice line (Index line ''PackedInt32Array('' + int (length ''PackedInt32Array(''))
                  (LastIndex line '')'')")
    case None
    then have "st' = st \<and> g' = g"
      using assms(3) True by (simp add: layerTileData_def Let_def)
    then show ?thesis using assms(1) by simp
  next
    case (Some dataStr)
    let ?td = "if dataStr \<noteq> [] then appendInts L (Split dataStr '','') (currentTileData st)
               else currentTileData st"
    obtain g1 out where c: "convertTileDataFormat L cfg ?td g = (g1, out)"
      by (cases "convertTileDataFormat L cfg ?td g")
    have "g' = g1 \<and> layerState.layers st' = layerState.layers st @
            [\<lparr>Layer.ID = currentLayerID st, Layer.Name = currentLayerName st, Layer.Tiles = [],
              Layer.ZIndex = currentZIndex st, Layer.TileData = out\<rparr>]"
      using assms(3) True Some c unfolding layerTileData_def Let_def
      by auto
    then show ?thesis
      using convertTileDataFormat_inv[OF assms(1,2) c] by (simp add: placements_snoc)
  qed
qed

lemma layerLine_inv:
  assumes "boundsInv ox oy g (placements (layerState.layers st))"
    and "tileOffsets L cfg = (ox, oy)"
    and "layerLine L cfg (st, g) line = (st', g')"
  shows "boundsInv ox oy g' (placements (layerState.layers st'))"
proof -
  let ?st1 = "layerZIndex L (TrimSpace L line) (layerName L (TrimSpace L line) st)"
  have "layerTileData L cfg (TrimSpace L line) (?st1, g) = (st', g')"
    using assms(3) by (simp add: layerLine_def Let_def)
  moreover have "boundsInv ox oy g (placements (layerState.layers ?st1))"
    using assms(1) by simp
  ultimately show ?thesis using layerTileData_inv assms(2) by blast
qed

lemma layerLines_inv:
  assumes "boundsInv ox oy (snd sg) (placements (layerState.layers (fst sg)))"
    and "tileOffsets L cfg = (ox, oy)"
  shows "boundsInv ox oy (snd (foldl (layerLine L cfg) sg lines))
           (placements (layerState.layers (fst (foldl (layerLine L cfg) sg lines))))"
  using assms(1)
proof (induction lines arbitrary: sg)
  case Nil
  then show ?case by simp
next
  case (Cons line lines)
  obtain st g where sg: "sg = (st, g)" by (cases sg)
  obtain st' g' where l: "layerLine L cfg (st, g) line = (st', g')"
    by (cases "layerLine L cfg (st, g) line")
  have "boundsInv ox oy g' (placements (layerState.layers st'))"
    using layerLine_inv[OF _ assms(2) l] Cons.prems sg by simp
  then show ?case using Cons.IH[of "(st', g')"] l sg by simp
qed

lemma parseLayersFromTSCN_inv:
  assumes "files w filename = Some content"
    and "boundsInv ox oy g []" and "tileOffsets L cfg = (ox, oy)"
  shows "\<exists>ls w' g'. parseLayersFromTSCN L cfg filename (w, g) = (Some ls, w', g')
           \<and> boundsInv ox oy g' (placements ls)"
proof -
  let ?init = "\<lparr>currentLayerID = -1, currentLayerName = '''', currentZIndex = 0,
                 currentTileData = [], layerState.layers = []\<rparr>"
  let ?r = "foldl (layerLine L cfg) (?init, g) (Split content [CHR 0x0A])"
  have "boundsInv ox oy (snd ?r) (placements (layerState.layers (fst ?r)))"
    by (rule layerLines_inv) (simp_all add: assms placements_def)
  moreover have "parseLayersFromTSCN L cfg filename (w, g)
      = (Some (layerState.layers (fst ?r)), w\<lparr>opened := opened w @ [filename]\<rparr>, snd ?r)"
    using assms(1) by (simp add: parseLayersFromTSCN_def osOpen_def Let_def split: prod.splits)
  ultimately show ?thesis by blast
qed



section \<open>Files and the first pass: proofs\<close>

lemma parsePrefabFile_files:
  "parsePrefabFile L filePath w = (r, w') \<Longrightarrow> files w' = files w"
  by (auto simp: parsePrefabFile_def osOpen_def Let_def split: option.splits if_splits)

lemma getPrefabInfo_files:
  assumes "getPrefabInfo L cfg resPath (c, w) = (r, c', w')"
  shows "files w' = files w"
proof (cases "map_of (prefabCache c) resPath")
  case (Some i)
  then show ?thesis using assms by (simp add: getPrefabInfo_def)
next
  case None
  show ?thesis
  proof (cases "resolvePrefabPath L cfg resPath = ''''")
    case True
    then show ?thesis using assms None by (simp add: getPrefabInfo_def)
  next
    case False
    obtain r1 w1 where p: "parsePrefabFile L (resolvePrefabPath L cfg resPath) w = (r1, w1)"
      by (cases "parsePrefabFile L (resolvePrefabPath L cfg resPath) w")
    have "w' = w1" using assms None False p
      by (cases r1) (simp_all add: getPrefabInfo_def Let_def)
    then show ?thesis using parsePrefabFile_files[OF p] by simp
  qed
qed

lemma buildPrefabNode_files:
  "files (bworld (buildPrefabNode L cfg st sprite)) = files (bworld st)"
proof -
  obtain r c' w' where g: "getPrefabInfo L cfg (SpriteNode.Path sprite) (bconv st, bworld st) = (r, c', w')"
    by (metis prod_cases3)
  have "bworld (buildPrefabNode L cfg st sprite) = w'"
    by (simp add: buildPrefabNode_def Let_def g)
  then show ?thesis using getPrefabInfo_files[OF g] by simp
qed

lemma buildPrefabNode_foldl_files:
  "files (bworld (foldl (buildPrefabNode L cfg) st ss)) = files (bworld st)"
  by (induction ss arbitrary: st) (simp_all add: buildPrefabNode_files)

lemma buildPrefabNodes_files:
  "buildPrefabNodes L cfg (c, w) = (ps, c', w') \<Longrightarrow> files w' = files w"
  using buildPrefabNode_foldl_files[of L cfg "\<lparr>prefabs = [], prefabMap = [], bconv = c, bworld = w\<rparr>" "sprites c"]
  by (auto simp: buildPrefabNodes_def Let_def)



text \<open>What a first pass that returns a map has done.\<close>

lemma convertTSCNToTileMap_success:
  assumes "convertTSCNToTileMap L cfg filename c (w, g) = (Returned (Some d, e), w1, g1)"
  obtains content st c' prefabNodes where
      "files w filename = Some content"
    and "\<not> snd (scanLines (1024 * 1024) content)"
    and "scanDocument L cfg (fst (scanLines (1024 * 1024) content))
         \<lparr>conv = c, currentSection = [], currentSubResource = [], format = 0, layers = []\<rparr> = Some st"
    and "buildPrefabNodes L cfg (finishRemaining (conv st), w\<lparr>opened := opened w @ [filename]\<rparr>)
         = (prefabNodes, c', w1)"
    and "d = \<lparr>TileMap = \<lparr>Format = scanState.format st, TileSize = tilemapTileSize cfg,
                       TileSet = \<lparr>Sources = sort_key TileSource.ID
                                    (map snd (sources (finishRemaining (conv st))))\<rparr>,
                       Layers = scanState.layers st,
                       WorldTileSize = \<lparr>Width = 0, Height = 0\<rparr>\<rparr>,
           Decorators = decorators (finishRemaining (conv st)),
           Sprites = sprites (finishRemaining (conv st)), Prefabs = prefabNodes\<rparr>"
    and "e = None"
    and "g1 = g\<lparr>minTileX := 1000000, maxTileX := -1000000, minTileY := 1000000, maxTileY := -1000000\<rparr>"
proof -
  let ?w' = "w\<lparr>opened := opened w @ [filename]\<rparr>"
  let ?g' = "g\<lparr>minTileX := 1000000, maxTileX := -1000000, minTileY := 1000000, maxTileY := -1000000\<rparr>"
  let ?init = "\<lparr>conv = c, currentSection = '''', currentSubResource = '''', format = 0, layers = []\<rparr>"
  obtain content where f: "files w filename = Some content"
    using assms by (cases "files w filename") (simp_all add: convertTSCNToTileMap_def osOpen_def)
  let ?sc = "scanLines (1024 * 1024) content"
  obtain st where s: "scanDocument L cfg (fst ?sc) ?init = Some st"
    using assms f by (cases "scanDocument L cfg (fst ?sc) ?init")
      (simp_all add: convertTSCNToTileMap_def osOpen_def Let_def)
  have t: "\<not> snd ?sc"
    using assms f s by (cases "snd ?sc") (simp_all add: convertTSCNToTileMap_def osOpen_def Let_def)
  obtain prefabNodes c' w'' where b:
    "buildPrefabNodes L cfg (finishRemaining (conv st), ?w') = (prefabNodes, c', w'')"
    by (metis prod_cases3)
  have "convertTSCNToTileMap L cfg filename c (w, g) =
      (Returned (Some \<lparr>TileMap = \<lparr>Format = scanState.format st, TileSize = tilemapTileSize cfg,
                       TileSet = \<lparr>Sources = sort_key TileSource.ID
                                    (map snd (sources (finishRemaining (conv st))))\<rparr>,
                       Layers = scanState.layers st,
                       WorldTileSize = \<lparr>Width = 0, Height = 0\<rparr>\<rparr>,
           Decorators = decorators (finishRemaining (conv st)),
           Sprites = sprites (finishRemaining (conv st)), Prefabs = prefabNodes\<rparr>, None), w'', ?g')"
    using f s t b by (simp add: convertTSCNToTileMap_def osOpen_def Let_def)
  with assms f s t b show ?thesis by (intro that[of content st prefabNodes c']) simp_all
qed



section \<open>The even-dimension check: proofs\<close>

lemma go_rem_2: "go_rem a 2 \<noteq> 0 \<longleftrightarrow> odd a"
proof -
  have "\<bar>a\<bar> mod 2 = 0 \<longleftrightarrow> even a" by presburger
  then show ?thesis by (auto simp: go_rem_def sgn_if)
qed

lemma emitTile_plain:
  assumes "-32768 \<le> fst d" "fst d \<le> 32767" "-32768 \<le> snd d" "snd d \<le> 32767"
    and "\<bar>ox\<bar> \<le> 2 ^ 62" and "\<bar>oy\<bar> \<le> 2 ^ 62"
  shows "emitTile ox oy d = (fst d + ox, - (snd d + oy))"
proof -
  have 1: "wrap64 (fst d + ox) = fst d + ox" using assms by (intro wrap64_id) auto
  have 2: "wrap64 (snd d + oy) = snd d + oy" using assms by (intro wrap64_id) auto
  have 3: "wrap64 (- (snd d + oy)) = - (snd d + oy)" using assms by (intro wrap64_id) auto
  show ?thesis unfolding emitTile_def 1 2 3 by simp
qed

lemma Min_sentinel:
  assumes "finite A" "A \<noteq> {}" "\<forall>a\<in>A. a \<le> (32767::int)"
  shows "Min (insert 1000000 A) = Min A"
proof -
  have "Min A \<le> 32767" using assms Min_in[of A] by blast
  moreover have "Min (insert 1000000 A) = min 1000000 (Min A)" using assms by (intro Min_insert)
  ultimately show ?thesis by simp
qed

lemma Max_sentinel:
  assumes "finite A" "A \<noteq> {}" "\<forall>a\<in>A. (-32768::int) \<le> a"
  shows "Max (insert (-1000000) A) = Max A"
proof -
  have "-32768 \<le> Max A" using assms Max_in[of A] by blast
  moreover have "Max (insert (-1000000) A) = max (-1000000) (Max A)" using assms by (intro Max_insert)
  ultimately show ?thesis by simp
qed

lemma boundsInv_box:
  assumes inv: "boundsInv ox oy g ts" and ne: "ts \<noteq> []"
    and ox: "\<bar>ox\<bar> \<le> 2 ^ 62" and oy: "\<bar>oy\<bar> \<le> 2 ^ 62"
  shows "maxTileX g - minTileX g + 1 = boxWidth ts"
    and "maxTileY g - minTileY g + 1 = boxHeight ts"
    and "-32768 \<le> minTileX g" and "maxTileX g \<le> 32767"
    and "-32768 \<le> minTileY g" and "maxTileY g \<le> 32767"
    and "minTileX g \<le> maxTileX g" and "minTileY g \<le> maxTileY g"
proof -
  from inv obtain D where D: "ts = map (emitTile ox oy) D"
    and r: "\<forall>d\<in>set D. -32768 \<le> fst d \<and> fst d \<le> 32767 \<and> -32768 \<le> snd d \<and> snd d \<le> 32767"
    and b: "minTileX g = Min (insert 1000000 (fst ` set D))"
           "maxTileX g = Max (insert (-1000000) (fst ` set D))"
           "minTileY g = Min (insert 1000000 (snd ` set D))"
           "maxTileY g = Max (insert (-1000000) (snd ` set D))"
    unfolding boundsInv_def by blast
  let ?A = "fst ` set D" and ?B = "snd ` set D"
  have neD: "D \<noteq> []" using ne D by auto
  have fA: "finite ?A" "?A \<noteq> {}" and fB: "finite ?B" "?B \<noteq> {}" using neD by auto
  have mx: "minTileX g = Min ?A" unfolding b using fA r by (intro Min_sentinel) auto
  have Mx: "maxTileX g = Max ?A" unfolding b using fA r by (intro Max_sentinel) auto
  have my: "minTileY g = Min ?B" unfolding b using fB r by (intro Min_sentinel) auto
  have My: "maxTileY g = Max ?B" unfolding b using fB r by (intro Max_sentinel) auto
  have e: "\<And>d. d \<in> set D \<Longrightarrow> emitTile ox oy d = (fst d + ox, - (snd d + oy))"
    using r ox oy by (intro emitTile_plain) auto
  have sx: "set (map fst ts) = (\<lambda>x. x + ox) ` ?A"
    unfolding D using e by (force simp: image_iff)
  have sy: "set (map snd ts) = uminus ` ((\<lambda>y. y + oy) ` ?B)"
    unfolding D using e by (force simp: image_iff)
  have "Max ((\<lambda>x. x + ox) ` ?A) = Max ?A + ox" "Min ((\<lambda>x. x + ox) ` ?A) = Min ?A + ox"
    using Max_add_commute[OF fA, of "\<lambda>x. x" ox] Min_add_commute[OF fA, of "\<lambda>x. x" ox] by simp_all
  then show "maxTileX g - minTileX g + 1 = boxWidth ts"
    by (simp add: boxWidth_def sx mx Mx del: set_map)
  have fC: "finite ((\<lambda>y. y + oy) ` ?B)" "(\<lambda>y. y + oy) ` ?B \<noteq> {}" using fB by auto
  have "Max (uminus ` ((\<lambda>y. y + oy) ` ?B)) = - Min ((\<lambda>y. y + oy) ` ?B)"
       "Min (uminus ` ((\<lambda>y. y + oy) ` ?B)) = - Max ((\<lambda>y. y + oy) ` ?B)"
    using minus_Min_eq_Max[OF fC] minus_Max_eq_Min[OF fC] by simp_all
  moreover have "Max ((\<lambda>y. y + oy) ` ?B) = Max ?B + oy" "Min ((\<lambda>y. y + oy) ` ?B) = Min ?B + oy"
    using Max_add_commute[OF fB, of "\<lambda>x. x" oy] Min_add_commute[OF fB, of "\<lambda>x. x" oy] by simp_all
  ultimately show "maxTileY g - minTileY g + 1 = boxHeight ts"
    by (simp add: boxHeight_def sy my My del: set_map)
  show "-32768 \<le> minTileX g" unfolding mx using fA r Min_in[OF fA] by auto
  show "maxTileX g \<le> 32767" unfolding Mx using fA r Max_in[OF fA] by auto
  show "-32768 \<le> minTileY g" unfolding my using fB r Min_in[OF fB] by auto
  show "maxTileY g \<le> 32767" unfolding My using fB r Max_in[OF fB] by auto
  show "minTileX g \<le> maxTileX g" unfolding mx Mx using fA by (simp add: Min_le_iff)
  show "minTileY g \<le> maxTileY g" unfolding my My using fB by (simp add: Min_le_iff)
qed

lemma convertTSCNToTileMap_successE:
  assumes "convertTSCNToTileMap L cfg filename c (w, g) = (Returned (Some d, e), w1, g1)"
  obtains content c' prefabNodes where "files w filename = Some content"
    and "files w1 = files w" and "e = None"
    and "TileSize (TileMap d) = tilemapTileSize cfg"
    and "g1 = g\<lparr>minTileX := 1000000, maxTileX := -1000000, minTileY := 1000000, maxTileY := -1000000\<rparr>"
proof -
  from assms obtain content st c' prefabNodes where
    f: "files w filename = Some content"
    and "\<not> snd (scanLines (1024 * 1024) content)"
    and "scanDocument L cfg (fst (scanLines (1024 * 1024) content))
         \<lparr>conv = c, currentSection = [], currentSubResource = [], format = 0, layers = []\<rparr> = Some st"
    and b: "buildPrefabNodes L cfg (finishRemaining (conv st), w\<lparr>opened := opened w @ [filename]\<rparr>)
              = (prefabNodes, c', w1)"
    and d: "d = \<lparr>TileMap = \<lparr>Format = scanState.format st, TileSize = tilemapTileSize cfg,
                       TileSet = \<lparr>Sources = sort_key TileSource.ID
                                    (map snd (sources (finishRemaining (conv st))))\<rparr>,
                       Layers = scanState.layers st,
                       WorldTileSize = \<lparr>Width = 0, Height = 0\<rparr>\<rparr>,
           Decorators = decorators (finishRemaining (conv st)),
           Sprites = sprites (finishRemaining (conv st)), Prefabs = prefabNodes\<rparr>"
    and e: "e = None"
    and g1: "g1 = g\<lparr>minTileX := 1000000, maxTileX := -1000000, minTileY := 1000000, maxTileY := -1000000\<rparr>"
    by (rule convertTSCNToTileMap_success)
  have "files w1 = files w" using buildPrefabNodes_files[OF b] by simp
  moreover have "TileSize (TileMap d) = tilemapTileSize cfg" by (simp add: d)
  ultimately show ?thesis using that f e g1 by blast
qed

text \<open>The second half of \<open>ConvertTSCNToTileMap\<close>, after a first pass that returned a map.\<close>

lemma ConvertTSCNToTileMap_second_pass:
  assumes first: "convertTSCNToTileMap L cfg filename c (w, g) = (Returned (Some d, e), w1, g1)"
    and off: "tileOffsets L cfg = (ox, oy)"
  shows "\<exists>ls w' g'. boundsInv ox oy g' (placements ls)
     \<and> ConvertTSCNToTileMap L cfg filename c (w, g) =
         (let data = d\<lparr>TileMap := (TileMap d)\<lparr>Layers := ls\<rparr>\<rparr>;
              diffX = wrap64 (wrap64 (maxTileX g' - minTileX g') + 1);
              diffY = wrap64 (wrap64 (maxTileY g' - minTileY g') + 1)
          in if go_rem diffX 2 \<noteq> 0 \<or> go_rem diffY 2 \<noteq> 0
             then (Returned (Some data, Some (ErrOddSize diffX diffY)), w', g')
             else (Returned (Some (data\<lparr>TileMap := (TileMap data)\<lparr>WorldTileSize :=
                      \<lparr>Width = diffX, Height = diffY\<rparr>\<rparr>\<rparr>), None), w', g'))"
proof -
  from first obtain content where f: "files w filename = Some content"
    and fw: "files w1 = files w" and e: "e = None"
    and g1: "g1 = g\<lparr>minTileX := 1000000, maxTileX := -1000000, minTileY := 1000000, maxTileY := -1000000\<rparr>"
    by (rule convertTSCNToTileMap_successE)
  have f1: "files w1 filename = Some content" using f fw by simp
  have s: "boundsInv ox oy g1 []" by (rule boundsInv_sentinel) (simp_all add: g1)
  from parseLayersFromTSCN_inv[OF f1 s off] obtain ls w' g' where
    p: "parseLayersFromTSCN L cfg filename (w1, g1) = (Some ls, w', g')"
    and i: "boundsInv ox oy g' (placements ls)" by blast
  show ?thesis
    apply (rule exI[of _ ls], rule exI[of _ w'], rule exI[of _ g'])
    using i by (simp add: ConvertTSCNToTileMap_def first p e Let_def)
qed



text \<open>
  The even-dimension check where the first pass returns. When the first pass over a file
  returns a map (the file opens, no line fills the scanner's buffer and no line makes the
  scan panic), \<open>ConvertTSCNToTileMap\<close> returns that map with the layers of the layer pass;
  and when the tile placements of those layers span a bounding box of odd width or odd
  height, it returns with the map the error that reports the two dimensions. The offset
  in tiles is taken below \<open>2 ^ 62\<close> in absolute value, so that adding it to a coordinate
  does not overflow.
\<close>

theorem odd_bounding_box_is_error:
  assumes first: "convertTSCNToTileMap L cfg filename c (w, g) = (Returned (Some d, e), w1, g1)"
    and off: "tileOffsets L cfg = (ox, oy)" and ox: "\<bar>ox\<bar> \<le> 2 ^ 62" and oy: "\<bar>oy\<bar> \<le> 2 ^ 62"
  shows "\<exists>data err w' g'.
      ConvertTSCNToTileMap L cfg filename c (w, g) = (Returned (Some data, err), w', g')
    \<and> (placements (Layers (TileMap data)) \<noteq> []
         \<and> (odd (boxWidth (placements (Layers (TileMap data))))
              \<or> odd (boxHeight (placements (Layers (TileMap data)))))
         \<longrightarrow> err = Some (ErrOddSize (boxWidth (placements (Layers (TileMap data))))
                                  (boxHeight (placements (Layers (TileMap data)))))
             \<and> data = d\<lparr>TileMap := (TileMap d)\<lparr>Layers := Layers (TileMap data)\<rparr>\<rparr>)"
proof -
  from ConvertTSCNToTileMap_second_pass[OF first off] obtain ls w' g' where
    inv: "boundsInv ox oy g' (placements ls)"
    and r: "ConvertTSCNToTileMap L cfg filename c (w, g) =
         (let data = d\<lparr>TileMap := (TileMap d)\<lparr>Layers := ls\<rparr>\<rparr>;
              diffX = wrap64 (wrap64 (maxTileX g' - minTileX g') + 1);
              diffY = wrap64 (wrap64 (maxTileY g' - minTileY g') + 1)
          in if go_rem diffX 2 \<noteq> 0 \<or> go_rem diffY 2 \<noteq> 0
             then (Returned (Some data, Some (ErrOddSize diffX diffY)), w', g')
             else (Returned (Some (data\<lparr>TileMap := (TileMap data)\<lparr>WorldTileSize :=
                      \<lparr>Width = diffX, Height = diffY\<rparr>\<rparr>\<rparr>), None), w', g'))"
    by blast
  let ?ts = "placements ls"
  let ?dx = "wrap64 (wrap64 (maxTileX g' - minTileX g') + 1)"
  let ?dy = "wrap64 (wrap64 (maxTileY g' - minTileY g') + 1)"
  show ?thesis
  proof (cases "?ts \<noteq> [] \<and> (odd (boxWidth ?ts) \<or> odd (boxHeight ?ts))")
    case True
    then have ne: "?ts \<noteq> []" by simp
    note box = boundsInv_box[OF inv ne ox oy]
    have "wrap64 (maxTileX g' - minTileX g') = maxTileX g' - minTileX g'"
      using box(3,4,7) by (intro wrap64_id) auto
    moreover have "wrap64 (maxTileX g' - minTileX g' + 1) = maxTileX g' - minTileX g' + 1"
      using box(3,4,7) by (intro wrap64_id) auto
    ultimately have dx: "?dx = boxWidth ?ts" using box(1) by simp
    have "wrap64 (maxTileY g' - minTileY g') = maxTileY g' - minTileY g'"
      using box(5,6,8) by (intro wrap64_id) auto
    moreover have "wrap64 (maxTileY g' - minTileY g' + 1) = maxTileY g' - minTileY g' + 1"
      using box(5,6,8) by (intro wrap64_id) auto
    ultimately have dy: "?dy = boxHeight ?ts" using box(2) by simp
    have "go_rem ?dx 2 \<noteq> 0 \<or> go_rem ?dy 2 \<noteq> 0"
      using True unfolding go_rem_2 dx dy by simp
    then have "ConvertTSCNToTileMap L cfg filename c (w, g) =
        (Returned (Some (d\<lparr>TileMap := (TileMap d)\<lparr>Layers := ls\<rparr>\<rparr>),
                   Some (ErrOddSize (boxWidth ?ts) (boxHeight ?ts))), w', g')"
      unfolding r Let_def dx[symmetric] dy[symmetric] by simp
    then show ?thesis
      by (intro exI[of _ "d\<lparr>TileMap := (TileMap d)\<lparr>Layers := ls\<rparr>\<rparr>"]
                exI[of _ "Some (ErrOddSize (boxWidth ?ts) (boxHeight ?ts))"] exI[of _ w'] exI[of _ g']) simp
  next
    case False
    have l: "\<And>x. placements (Layers (TileMap (d\<lparr>TileMap := (TileMap d)\<lparr>Layers := ls\<rparr>\<rparr>
                 \<lparr>TileMap := (TileMap (d\<lparr>TileMap := (TileMap d)\<lparr>Layers := ls\<rparr>\<rparr>))\<lparr>WorldTileSize := x\<rparr>\<rparr>))) = ?ts"
      by simp
    show ?thesis
    proof (cases "go_rem ?dx 2 \<noteq> 0 \<or> go_rem ?dy 2 \<noteq> 0")
      case True
      then have "ConvertTSCNToTileMap L cfg filename c (w, g) =
        (Returned (Some (d\<lparr>TileMap := (TileMap d)\<lparr>Layers := ls\<rparr>\<rparr>), Some (ErrOddSize ?dx ?dy)), w', g')"
        unfolding r Let_def by simp
      then show ?thesis using False
        by (intro exI[of _ "d\<lparr>TileMap := (TileMap d)\<lparr>Layers := ls\<rparr>\<rparr>"]
                  exI[of _ "Some (ErrOddSize ?dx ?dy)"] exI[of _ w'] exI[of _ g']) auto
    next
      case f: False
      then have "ConvertTSCNToTileMap L cfg filename c (w, g) =
        (Returned (Some (d\<lparr>TileMap := (TileMap d)\<lparr>Layers := ls, WorldTileSize :=
                      \<lparr>Width = ?dx, Height = ?dy\<rparr>\<rparr>\<rparr>), None), w', g')"
        unfolding r Let_def by simp
      then show ?thesis using False
        by (intro exI[of _ "d\<lparr>TileMap := (TileMap d)\<lparr>Layers := ls, WorldTileSize :=
                      \<lparr>Width = ?dx, Height = ?dy\<rparr>\<rparr>\<rparr>"] exI[of _ None] exI[of _ w'] exI[of _ g']) auto
    qed
  qed
qed


section \<open>Running the parser\<close>

text \<open>The definitions that the simplifier unfolds to run the parser on a document.\<close>

lemmas lib_defs = runLib_def isSpace_def isDigit_def isWord_def matchHere_def parseIntBits_def
  decimal_def digitsValue_def decDigits.simps

lemmas string_defs = Contains_def Index_def LastIndex_def Split_def SplitN2_def Trim_def
  Replace1_def TrimPrefix_def slice_def

lemmas regex_defs = re_type_def re_path_def re_sid_def re_uid_def re_id_def re_shape_def
  re_layer_def re_extres_def re_subres_def re_sources_def re_packed_def re_name_def
  re_parent_def re_vector2_def re_instance_def submatch1_def lastSubmatch1_def

lemmas scan_defs = scanLine_def scanHeader_def scanContent_def finishNodes_def finishRemaining_def
  parseExtResource_def extResOf_def parseSubResource_def tileSourceOf_def
  extractSubResourceID_def extractShapeType_def extractExtResourceID_def
  extractSubResourceReference_def extractIntValue_def extractSourceID_def extractLayerID_def
  extractPolygonPoints_def extractVector2_def extractTileData_def parseTileData_def
  tilesLoop.simps calculateTileSizeFromPoints_def shapeSize_def shapeRadius_def shapePoints_def
  parseDecoratorNode_def parseDecoratorProperty_def parseSpriteNode_def parseSpriteProperty_def
  zeroVec2_def newTSCNConverter_def defaultConfig_def

lemmas layer_defs = layerLine_def layerName_def layerZIndex_def layerTileData_def
  convertTileDataFormat_def tileOffsets_def convertLoop.simps decodeTile_def wrap64_def

lemmas first_pass_defs = convertTSCNToTileMap_def osOpen_def scanLines_def dropCR_def
  buildPrefabNodes_def Let_def

lemma odd_first_pass:
  "convertTSCNToTileMap runLib (defaultConfig runLib) ''odd.tscn'' newTSCNConverter
     (sampleWorld, zeroGlobals)
   = (Returned (Some \<lparr>TileMap = \<lparr>Format = 2, TileSize = \<lparr>Width = 16, Height = 16\<rparr>,
           TileSet = \<lparr>Sources = []\<rparr>,
           Layers = [\<lparr>Layer.ID = 0, Layer.Name = ''layer_0'',
                Layer.Tiles = [\<lparr>TileCoords = \<lparr>Vec2i.X = 0, Vec2i.Y = 0\<rparr>, SourceID = 65536,
                      TileInstance.AtlasCoords = \<lparr>Vec2i.X = 65537, Vec2i.Y = 0\<rparr>\<rparr>],
                Layer.ZIndex = 0, Layer.TileData = []\<rparr>],
           WorldTileSize = \<lparr>Width = 0, Height = 0\<rparr>\<rparr>,
        Decorators = [], Sprites = [], Prefabs = []\<rparr>, None),
     sampleWorld\<lparr>opened := [''odd.tscn'']\<rparr>,
     \<lparr>minTileX = 1000000, maxTileX = -1000000, minTileY = 1000000, maxTileY = -1000000,
      tileTotalCount = 0\<rparr>)"
  by (simp add: first_pass_defs sampleWorld_def oddDocument_def zeroGlobals_def
        scan_defs regex_defs string_defs lib_defs)

lemma odd_layer_pass:
  "parseLayersFromTSCN runLib (defaultConfig runLib) ''odd.tscn''
     (sampleWorld\<lparr>opened := [''odd.tscn'']\<rparr>,
      \<lparr>minTileX = 1000000, maxTileX = -1000000, minTileY = 1000000, maxTileY = -1000000,
       tileTotalCount = 0\<rparr>)
   = (Some [\<lparr>Layer.ID = 0, Layer.Name = ''ground'', Layer.Tiles = [], Layer.ZIndex = 0,
             Layer.TileData = [0, 0, - 1, 0, 0, 0, 1, - 1, 0, 0]\<rparr>],
      sampleWorld\<lparr>opened := [''odd.tscn'', ''odd.tscn'']\<rparr>,
      \<lparr>minTileX = 0, maxTileX = 1, minTileY = 1, maxTileY = 1, tileTotalCount = 2\<rparr>)"
  by (simp add: parseLayersFromTSCN_def osOpen_def sampleWorld_def oddDocument_def Let_def
        layer_defs defaultConfig_def string_defs lib_defs)

lemma odd_conversion:
  "fst (ConvertTSCNToTileMap runLib (defaultConfig runLib) ''odd.tscn'' newTSCNConverter
          (sampleWorld, zeroGlobals))
   = Returned (Some \<lparr>TileMap = \<lparr>Format = 2, TileSize = \<lparr>Width = 16, Height = 16\<rparr>,
           TileSet = \<lparr>Sources = []\<rparr>,
           Layers = [\<lparr>Layer.ID = 0, Layer.Name = ''ground'', Layer.Tiles = [], Layer.ZIndex = 0,
                      Layer.TileData = [0, 0, - 1, 0, 0, 0, 1, - 1, 0, 0]\<rparr>],
           WorldTileSize = \<lparr>Width = 0, Height = 0\<rparr>\<rparr>,
        Decorators = [], Sprites = [], Prefabs = []\<rparr>, Some (ErrOddSize 2 1))"
  by (simp add: ConvertTSCNToTileMap_def odd_first_pass odd_layer_pass wrap64_def go_rem_def)

lemma odd_placements:
  "placements [\<lparr>Layer.ID = 0, Layer.Name = ''ground'', Layer.Tiles = [], Layer.ZIndex = 0,
                Layer.TileData = [0, 0, - 1, 0, 0, 0, 1, - 1, 0, 0]\<rparr>] = [(0, -1), (1, -1)]"
  by (simp add: placements_def)

theorem odd_bounding_box_is_error_witness:
  "convertTSCNToTileMap runLib (defaultConfig runLib) ''odd.tscn'' newTSCNConverter
     (sampleWorld, zeroGlobals)
   = (Returned (Some \<lparr>TileMap = \<lparr>Format = 2, TileSize = \<lparr>Width = 16, Height = 16\<rparr>,
           TileSet = \<lparr>Sources = []\<rparr>,
           Layers = [\<lparr>Layer.ID = 0, Layer.Name = ''layer_0'',
                Layer.Tiles = [\<lparr>TileCoords = \<lparr>Vec2i.X = 0, Vec2i.Y = 0\<rparr>, SourceID = 65536,
                      TileInstance.AtlasCoords = \<lparr>Vec2i.X = 65537, Vec2i.Y = 0\<rparr>\<rparr>],
                Layer.ZIndex = 0, Layer.TileData = []\<rparr>],
           WorldTileSize = \<lparr>Width = 0, Height = 0\<rparr>\<rparr>,
        Decorators = [], Sprites = [], Prefabs = []\<rparr>, None),
     sampleWorld\<lparr>opened := [''odd.tscn'']\<rparr>,
     \<lparr>minTileX = 1000000, maxTileX = -1000000, minTileY = 1000000, maxTileY = -1000000,
      tileTotalCount = 0\<rparr>)
   \<and> tileOffsets runLib (defaultConfig runLib) = (0, 0) \<and> \<bar>0::int\<bar> \<le> 2 ^ 62
   \<and> placements [\<lparr>Layer.ID = 0, Layer.Name = ''ground'', Layer.Tiles = [], Layer.ZIndex = 0,
                    Layer.TileData = [0, 0, - 1, 0, 0, 0, 1, - 1, 0, 0]\<rparr>] = [(0, -1), (1, -1)]
   \<and> boxWidth [(0, -1), (1, -1)] = 2 \<and> boxHeight [(0, -1), (1, -1)] = 1
   \<and> fst (ConvertTSCNToTileMap runLib (defaultConfig runLib) ''odd.tscn'' newTSCNConverter
          (sampleWorld, zeroGlobals))
     = Returned (Some \<lparr>TileMap = \<lparr>Format = 2, TileSize = \<lparr>Width = 16, Height = 16\<rparr>,
           TileSet = \<lparr>Sources = []\<rparr>,
           Layers = [\<lparr>Layer.ID = 0, Layer.Name = ''ground'', Layer.Tiles = [], Layer.ZIndex = 0,
                      Layer.TileData = [0, 0, - 1, 0, 0, 0, 1, - 1, 0, 0]\<rparr>],
           WorldTileSize = \<lparr>Width = 0, Height = 0\<rparr>\<rparr>,
        Decorators = [], Sprites = [], Prefabs = []\<rparr>, Some (ErrOddSize 2 1))"
  using odd_bounding_box_is_error[OF odd_first_pass runLib_default_offsets]
  by (simp add: odd_first_pass runLib_default_offsets odd_placements odd_conversion
        boxWidth_def boxHeight_def)

text \<open>
  The same check on a map without placements. When the first pass over a file returns a
  map, \<open>Parse\<close> returns a map too; and when the layers of that map hold no tile
  placement, the four bounds still have their initial values, the two dimensions computed
  from them are \<open>-1999999\<close>, and \<open>Parse\<close> returns the error of the even-dimension check
  with these dimensions.
\<close>

theorem no_placements_is_error:
  assumes name: "inputFile \<noteq> ''''"
    and first: "convertTSCNToTileMap L cfg inputFile newTSCNConverter (w, g)
                  = (Returned (Some d, e), w1, g1)"
  shows "\<exists>data err w' g'.
      Parse L cfg inputFile (w, g) = (Returned (Some data, err), w', g')
    \<and> (placements (Layers (TileMap data)) = []
         \<longrightarrow> err = Some (ErrOddSize (-1999999) (-1999999)))"
proof -
  obtain ox oy where off: "tileOffsets L cfg = (ox, oy)" by (cases "tileOffsets L cfg")
  from ConvertTSCNToTileMap_second_pass[OF first off] obtain ls w' g' where
    inv: "boundsInv ox oy g' (placements ls)"
    and r: "ConvertTSCNToTileMap L cfg inputFile newTSCNConverter (w, g) =
         (let data = d\<lparr>TileMap := (TileMap d)\<lparr>Layers := ls\<rparr>\<rparr>;
              diffX = wrap64 (wrap64 (maxTileX g' - minTileX g') + 1);
              diffY = wrap64 (wrap64 (maxTileY g' - minTileY g') + 1)
          in if go_rem diffX 2 \<noteq> 0 \<or> go_rem diffY 2 \<noteq> 0
             then (Returned (Some data, Some (ErrOddSize diffX diffY)), w', g')
             else (Returned (Some (data\<lparr>TileMap := (TileMap data)\<lparr>WorldTileSize :=
                      \<lparr>Width = diffX, Height = diffY\<rparr>\<rparr>\<rparr>), None), w', g'))"
    by blast
  have p: "Parse L cfg inputFile (w, g) = ConvertTSCNToTileMap L cfg inputFile newTSCNConverter (w, g)"
    using name by (simp add: Parse_def)
  let ?dx = "wrap64 (wrap64 (maxTileX g' - minTileX g') + 1)"
  let ?dy = "wrap64 (wrap64 (maxTileY g' - minTileY g') + 1)"
  show ?thesis
  proof (cases "placements ls = []")
    case True
    with inv have b: "minTileX g' = 1000000" "maxTileX g' = -1000000"
        "minTileY g' = 1000000" "maxTileY g' = -1000000"
      using boundsInv_empty[of ox oy g'] by simp_all
    have w: "wrap64 (-2000000) = -2000000" "wrap64 (-1999999) = -1999999"
      by (simp_all add: wrap64_def)
    have dx: "?dx = -1999999" and dy: "?dy = -1999999" by (simp_all add: b w)
    have odd: "go_rem ?dx 2 \<noteq> 0" unfolding dx go_rem_2 by simp
    have "Parse L cfg inputFile (w, g) =
        (Returned (Some (d\<lparr>TileMap := (TileMap d)\<lparr>Layers := ls\<rparr>\<rparr>),
                   Some (ErrOddSize ?dx ?dy)), w', g')"
      unfolding p r Let_def using odd by simp
    then have "Parse L cfg inputFile (w, g) =
        (Returned (Some (d\<lparr>TileMap := (TileMap d)\<lparr>Layers := ls\<rparr>\<rparr>),
                   Some (ErrOddSize (-1999999) (-1999999))), w', g')"
      unfolding dx dy .
    then show ?thesis
      by (intro exI[of _ "d\<lparr>TileMap := (TileMap d)\<lparr>Layers := ls\<rparr>\<rparr>"]
                exI[of _ "Some (ErrOddSize (-1999999) (-1999999))"] exI[of _ w'] exI[of _ g']) simp
  next
    case False
    show ?thesis
    proof (cases "go_rem ?dx 2 \<noteq> 0 \<or> go_rem ?dy 2 \<noteq> 0")
      case True
      then have "Parse L cfg inputFile (w, g) =
        (Returned (Some (d\<lparr>TileMap := (TileMap d)\<lparr>Layers := ls\<rparr>\<rparr>), Some (ErrOddSize ?dx ?dy)), w', g')"
        unfolding p r Let_def by simp
      then show ?thesis using False
        by (intro exI[of _ "d\<lparr>TileMap := (TileMap d)\<lparr>Layers := ls\<rparr>\<rparr>"]
                  exI[of _ "Some (ErrOddSize ?dx ?dy)"] exI[of _ w'] exI[of _ g']) auto
    next
      case f: False
      then have "Parse L cfg inputFile (w, g) =
        (Returned (Some (d\<lparr>TileMap := (TileMap d)\<lparr>Layers := ls, WorldTileSize :=
                      \<lparr>Width = ?dx, Height = ?dy\<rparr>\<rparr>\<rparr>), None), w', g')"
        unfolding p r Let_def by simp
      then show ?thesis using False
        by (intro exI[of _ "d\<lparr>TileMap := (TileMap d)\<lparr>Layers := ls, WorldTileSize :=
                      \<lparr>Width = ?dx, Height = ?dy\<rparr>\<rparr>\<rparr>"] exI[of _ None] exI[of _ w'] exI[of _ g']) auto
    qed
  qed
qed

lemma bare_first_pass:
  "convertTSCNToTileMap runLib (defaultConfig runLib) ''bare.tscn'' newTSCNConverter
     (sampleWorld, zeroGlobals)
   = (Returned (Some \<lparr>TileMap = \<lparr>Format = 2, TileSize = \<lparr>Width = 16, Height = 16\<rparr>,
           TileSet = \<lparr>Sources = []\<rparr>, Layers = [],
           WorldTileSize = \<lparr>Width = 0, Height = 0\<rparr>\<rparr>,
        Decorators = [], Sprites = [], Prefabs = []\<rparr>, None),
     sampleWorld\<lparr>opened := [''bare.tscn'']\<rparr>,
     \<lparr>minTileX = 1000000, maxTileX = -1000000, minTileY = 1000000, maxTileY = -1000000,
      tileTotalCount = 0\<rparr>)"
  by (simp add: first_pass_defs sampleWorld_def bareDocument_def zeroGlobals_def
        scan_defs regex_defs string_defs lib_defs)

lemma bare_layer_pass:
  "parseLayersFromTSCN runLib (defaultConfig runLib) ''bare.tscn''
     (sampleWorld\<lparr>opened := [''bare.tscn'']\<rparr>,
      \<lparr>minTileX = 1000000, maxTileX = -1000000, minTileY = 1000000, maxTileY = -1000000,
       tileTotalCount = 0\<rparr>)
   = (Some [], sampleWorld\<lparr>opened := [''bare.tscn'', ''bare.tscn'']\<rparr>,
      \<lparr>minTileX = 1000000, maxTileX = -1000000, minTileY = 1000000, maxTileY = -1000000,
       tileTotalCount = 0\<rparr>)"
  by (simp add: parseLayersFromTSCN_def osOpen_def sampleWorld_def bareDocument_def Let_def
        layer_defs defaultConfig_def string_defs lib_defs)

lemma bare_parse:
  "fst (Parse runLib (defaultConfig runLib) ''bare.tscn'' (sampleWorld, zeroGlobals))
   = Returned (Some \<lparr>TileMap = \<lparr>Format = 2, TileSize = \<lparr>Width = 16, Height = 16\<rparr>,
           TileSet = \<lparr>Sources = []\<rparr>, Layers = [],
           WorldTileSize = \<lparr>Width = 0, Height = 0\<rparr>\<rparr>,
        Decorators = [], Sprites = [], Prefabs = []\<rparr>, Some (ErrOddSize (-1999999) (-1999999)))"
  by (simp add: Parse_def ConvertTSCNToTileMap_def bare_first_pass bare_layer_pass wrap64_def
        go_rem_def)

theorem no_placements_is_error_witness:
  "''bare.tscn'' \<noteq> ''''
   \<and> convertTSCNToTileMap runLib (defaultConfig runLib) ''bare.tscn'' newTSCNConverter
       (sampleWorld, zeroGlobals)
     = (Returned (Some \<lparr>TileMap = \<lparr>Format = 2, TileSize = \<lparr>Width = 16, Height = 16\<rparr>,
           TileSet = \<lparr>Sources = []\<rparr>, Layers = [],
           WorldTileSize = \<lparr>Width = 0, Height = 0\<rparr>\<rparr>,
        Decorators = [], Sprites = [], Prefabs = []\<rparr>, None),
        sampleWorld\<lparr>opened := [''bare.tscn'']\<rparr>,
        \<lparr>minTileX = 1000000, maxTileX = -1000000, minTileY = 1000000, maxTileY = -1000000,
         tileTotalCount = 0\<rparr>)
   \<and> placements [] = []
   \<and> fst (Parse runLib (defaultConfig runLib) ''bare.tscn'' (sampleWorld, zeroGlobals))
     = Returned (Some \<lparr>TileMap = \<lparr>Format = 2, TileSize = \<lparr>Width = 16, Height = 16\<rparr>,
           TileSet = \<lparr>Sources = []\<rparr>, Layers = [],
           WorldTileSize = \<lparr>Width = 0, Height = 0\<rparr>\<rparr>,
        Decorators = [], Sprites = [], Prefabs = []\<rparr>, Some (ErrOddSize (-1999999) (-1999999)))"
  using no_placements_is_error[OF _ bare_first_pass]
  by (simp add: bare_first_pass bare_parse placements_def)

section \<open>A file that cannot be opened\<close>

text \<open>
  C3. \<open>Parse\<close> of a path under which no file can be opened does not return the error of
  \<open>convertTSCNToTileMap\<close>: it panics, because \<open>ConvertTSCNToTileMap\<close> writes through
  the nil \<open>data\<close> before it looks at \<open>err\<close>. Only the empty path is answered with an
  error.
\<close>

lemma Parse_unopenable:
  assumes "inputFile \<noteq> ''''" and "files w inputFile = None"
  shows "fst (Parse L cfg inputFile (w, g)) = Panic"
  using assms by (simp add: Parse_def ConvertTSCNToTileMap_def convertTSCNToTileMap_def osOpen_def)

theorem Parse_missing_file_panics:
  "fst (Parse runLib (defaultConfig runLib) ''missing.tscn'' (sampleWorld, zeroGlobals)) = Panic"
  by (simp add: Parse_def ConvertTSCNToTileMap_def convertTSCNToTileMap_def osOpen_def
        sampleWorld_def)

section \<open>A line that cannot be sliced, a line that fills the buffer\<close>

text \<open>
  Whatever makes the first pass panic makes \<open>ConvertTSCNToTileMap\<close> panic; and when the
  first pass returns no map, as it does when a line fills the scanner's buffer of one
  mebibyte, \<open>ConvertTSCNToTileMap\<close> panics too, because it writes the layers through the
  nil \<open>data\<close> before it looks at \<open>err\<close>.
\<close>

lemma first_pass_panic:
  assumes "fst (convertTSCNToTileMap L cfg filename c wg) = Panic"
  shows "fst (ConvertTSCNToTileMap L cfg filename c wg) = Panic"
proof -
  obtain w g where "convertTSCNToTileMap L cfg filename c wg = (Panic, w, g)"
    using assms by (metis fst_conv prod_cases3)
  then show ?thesis by (simp add: ConvertTSCNToTileMap_def)
qed

lemma scan_error_panics:
  assumes "files w filename = Some content" and "snd (scanLines (1024 * 1024) content)"
  shows "fst (ConvertTSCNToTileMap L cfg filename c (w, g)) = Panic"
proof (cases "scanDocument L cfg (fst (scanLines (1024 * 1024) content))
                \<lparr>conv = c, currentSection = '''', currentSubResource = '''', format = 0, layers = []\<rparr>")
  case None
  then show ?thesis using assms
    by (simp add: ConvertTSCNToTileMap_def convertTSCNToTileMap_def osOpen_def Let_def)
next
  case (Some st)
  then show ?thesis using assms
    by (simp add: ConvertTSCNToTileMap_def convertTSCNToTileMap_def osOpen_def Let_def)
qed

text \<open>
  The two documents with a \<open>tile_data\<close> line whose closing parenthesis comes before
  \<open>PackedInt32Array(\<close>: the first pass panics in \<open>extractTileData\<close>, which slices the
  line from behind \<open>PackedInt32Array(\<close> to the last closing parenthesis without the test
  \<open>end > start\<close> that \<open>parseLayersFromTSCN\<close> makes; the layer pass on its own reads
  the layers of both.
\<close>

lemma oddbad_first_pass:
  "fst (convertTSCNToTileMap runLib (defaultConfig runLib) ''oddbad.tscn'' newTSCNConverter
      (sampleWorld, zeroGlobals)) = Panic"
  by (simp add: first_pass_defs sampleWorld_def oddBadDocument_def zeroGlobals_def
        scan_defs regex_defs string_defs lib_defs)

lemma oddbad_layers:
  "fst (parseLayersFromTSCN runLib (defaultConfig runLib) ''oddbad.tscn''
      (sampleWorld, zeroGlobals))
   = Some [\<lparr>Layer.ID = 0, Layer.Name = ''ground'', Layer.Tiles = [], Layer.ZIndex = 0,
            Layer.TileData = [0, 0, 0, 0, 0]\<rparr>]"
  by (simp add: parseLayersFromTSCN_def osOpen_def sampleWorld_def oddBadDocument_def Let_def
        layer_defs defaultConfig_def string_defs lib_defs zeroGlobals_def)

lemma barebad_first_pass:
  "fst (convertTSCNToTileMap runLib (defaultConfig runLib) ''barebad.tscn'' newTSCNConverter
      (sampleWorld, zeroGlobals)) = Panic"
  by (simp add: first_pass_defs sampleWorld_def bareBadDocument_def zeroGlobals_def
        scan_defs regex_defs string_defs lib_defs)

lemma barebad_layers:
  "fst (parseLayersFromTSCN runLib (defaultConfig runLib) ''barebad.tscn''
      (sampleWorld, zeroGlobals)) = Some []"
  by (simp add: parseLayersFromTSCN_def osOpen_def sampleWorld_def bareBadDocument_def Let_def
        layer_defs defaultConfig_def string_defs lib_defs zeroGlobals_def)

text \<open>So \<open>ConvertTSCNToTileMap\<close> panics on both.\<close>

lemma oddbad_conversion:
  "fst (ConvertTSCNToTileMap runLib (defaultConfig runLib) ''oddbad.tscn'' newTSCNConverter
      (sampleWorld, zeroGlobals)) = Panic"
  by (rule first_pass_panic) (rule oddbad_first_pass)

lemma barebad_conversion:
  "fst (ConvertTSCNToTileMap runLib (defaultConfig runLib) ''barebad.tscn'' newTSCNConverter
      (sampleWorld, zeroGlobals)) = Panic"
  by (rule first_pass_panic) (rule barebad_first_pass)

text \<open>
  C2. Not every readable document whose decoded tile placements span a bounding box of
  odd width or height makes \<open>ConvertTSCNToTileMap\<close> and \<open>Parse\<close> return an error with
  a map. The file \<open>oddbad.tscn\<close> opens and its four short lines are read; the layer pass
  decodes from it one placement, \<open>(0, 0)\<close>, whose bounding box is one wide and one high;
  and \<open>Parse\<close>, which on a path that is not empty is \<open>ConvertTSCNToTileMap\<close> on a
  new converter, returns nothing: it panics, in the slice that \<open>extractTileData\<close> takes
  of the fourth line.
\<close>

theorem odd_box_document_panics:
  "files sampleWorld ''oddbad.tscn'' = Some oddBadDocument
   \<and> scanLines (1024 * 1024) oddBadDocument
     = ([''[node name=\"TileMap\" type=\"TileMap\"]'', ''layer_0/name = \"ground\"'',
         ''layer_0/tile_data = PackedInt32Array(0, 0, 0)'',
         ''layer_1/tile_data) = PackedInt32Array(''], False)
   \<and> map_option placements (fst (parseLayersFromTSCN runLib (defaultConfig runLib)
        ''oddbad.tscn'' (sampleWorld, zeroGlobals))) = Some [(0, 0)]
   \<and> boxWidth [(0, 0)] = 1 \<and> boxHeight [(0, 0)] = 1
   \<and> fst (Parse runLib (defaultConfig runLib) ''oddbad.tscn'' (sampleWorld, zeroGlobals))
     = Panic"
proof -
  have "files sampleWorld ''oddbad.tscn'' = Some oddBadDocument"
    by (simp add: sampleWorld_def)
  moreover have "scanLines (1024 * 1024) oddBadDocument
     = ([''[node name=\"TileMap\" type=\"TileMap\"]'', ''layer_0/name = \"ground\"'',
         ''layer_0/tile_data = PackedInt32Array(0, 0, 0)'',
         ''layer_1/tile_data) = PackedInt32Array(''], False)"
    by (simp add: scanLines_def dropCR_def oddBadDocument_def string_defs)
  moreover have "map_option placements (fst (parseLayersFromTSCN runLib (defaultConfig runLib)
        ''oddbad.tscn'' (sampleWorld, zeroGlobals))) = Some [(0, 0)]"
    by (simp add: oddbad_layers placements_def)
  moreover have "boxWidth [(0, 0)] = 1" "boxHeight [(0, 0)] = 1"
    by (simp_all add: boxWidth_def boxHeight_def)
  moreover have "fst (Parse runLib (defaultConfig runLib) ''oddbad.tscn'' (sampleWorld, zeroGlobals))
     = Panic"
    using oddbad_conversion by (simp add: Parse_def)
  ultimately show ?thesis by blast
qed

text \<open>
  C9. Not every readable document with zero tile placements makes \<open>Parse\<close> return an
  error with a map. The file \<open>barebad.tscn\<close> opens and its two short lines are read; the
  layer pass finds no layer in it, so no placement; and \<open>Parse\<close>, which on a path that
  is not empty is \<open>ConvertTSCNToTileMap\<close> on a new converter, returns nothing: it panics,
  in the slice that \<open>extractTileData\<close> takes of the second line.
\<close>

theorem no_placement_document_panics:
  "files sampleWorld ''barebad.tscn'' = Some bareBadDocument
   \<and> scanLines (1024 * 1024) bareBadDocument
     = ([''[node name=\"TileMap\" type=\"TileMap\"]'',
         ''layer_0/tile_data = ) PackedInt32Array(''], False)
   \<and> map_option placements (fst (parseLayersFromTSCN runLib (defaultConfig runLib)
        ''barebad.tscn'' (sampleWorld, zeroGlobals))) = Some []
   \<and> fst (Parse runLib (defaultConfig runLib) ''barebad.tscn'' (sampleWorld, zeroGlobals))
     = Panic"
proof -
  have "files sampleWorld ''barebad.tscn'' = Some bareBadDocument"
    by (simp add: sampleWorld_def)
  moreover have "scanLines (1024 * 1024) bareBadDocument
     = ([''[node name=\"TileMap\" type=\"TileMap\"]'',
         ''layer_0/tile_data = ) PackedInt32Array(''], False)"
    by (simp add: scanLines_def dropCR_def bareBadDocument_def string_defs)
  moreover have "map_option placements (fst (parseLayersFromTSCN runLib (defaultConfig runLib)
        ''barebad.tscn'' (sampleWorld, zeroGlobals))) = Some []"
    by (simp add: barebad_layers placements_def)
  moreover have "fst (Parse runLib (defaultConfig runLib) ''barebad.tscn'' (sampleWorld, zeroGlobals))
     = Panic"
    using barebad_conversion by (simp add: Parse_def)
  ultimately show ?thesis by blast
qed

section \<open>The table of tile sources and the tile size: proofs\<close>

text \<open>What each line parser leaves alone, and what a line does to the table of tile sources.\<close>

lemma parseExtResource_frame [simp]:
  "sources (parseExtResource L line c) = sources c"
  "tileSize (parseExtResource L line c) = tileSize c"
  "prefabCache (parseExtResource L line c) = prefabCache c"
  by (simp_all add: parseExtResource_def Let_def)

lemma parseDecoratorProperty_frame [simp]:
  "sources (parseDecoratorProperty L line c) = sources c"
  "extResources (parseDecoratorProperty L line c) = extResources c"
  "prefabCache (parseDecoratorProperty L line c) = prefabCache c"
  by (simp_all add: parseDecoratorProperty_def Let_def split: option.splits)

lemma parseSpriteProperty_frame [simp]:
  "sources (parseSpriteProperty L cfg line c) = sources c"
  "extResources (parseSpriteProperty L cfg line c) = extResources c"
  "prefabCache (parseSpriteProperty L cfg line c) = prefabCache c"
  by (simp_all add: parseSpriteProperty_def Let_def split: option.splits)

lemma finishNodes_frame [simp]:
  "sources (finishNodes sec c) = sources c"
  "extResources (finishNodes sec c) = extResources c"
  "prefabCache (finishNodes sec c) = prefabCache c"
  by (simp_all add: finishNodes_def Let_def split: option.splits)

lemma finishRemaining_frame [simp]:
  "sources (finishRemaining c) = sources c"
  "extResources (finishRemaining c) = extResources c"
  "prefabCache (finishRemaining c) = prefabCache c"
  by (simp_all add: finishRemaining_def Let_def split: option.splits)

lemma parseSubResource_extResources [simp]:
  "extResources (parseSubResource L line resourceID c) = extResources c"
  by (simp add: parseSubResource_def Let_def)

lemma parseSubResource_prefabCache [simp]:
  "prefabCache (parseSubResource L line resourceID c) = prefabCache c"
  by (simp add: parseSubResource_def Let_def)

lemma parseSubResource_sources:
  "sources (parseSubResource L line resourceID c) =
     (if HasPrefix line ''sources/'' \<and> \<not> HasPrefix line ''texture = ExtResource(''
         \<and> \<not> HasPrefix line ''size = Vector2('' \<and> \<not> HasPrefix line ''radius = ''
         \<and> \<not> HasPrefix line ''points = PackedVector2Array(''
         \<and> \<not> HasPrefix line ''0:0/0/physics_layer_0/polygon_0/points''
         \<and> extractSourceID L line \<noteq> -1
      then AList.update (extractSourceID L line) (tileSourceOf L line c) (sources c)
      else sources c)"
  by (simp add: parseSubResource_def Let_def)

lemma scanHeader_sources [simp]: "sources (conv (scanHeader L line st)) = sources (conv st)"
  by (simp add: scanHeader_def Let_def)

lemma scanContent_cases:
  assumes "scanContent L cfg line st = Some st'"
  shows "conv st' = conv st
       \<or> conv st' = parseExtResource L line (conv st)
       \<or> conv st' = parseSubResource L line (scanState.currentSubResource st) (conv st)
       \<or> conv st' = parseDecoratorProperty L line (conv st)
       \<or> conv st' = parseSpriteProperty L cfg line (conv st)"
  using assms by (auto simp: scanContent_def Let_def split: if_splits option.splits)

lemma scanContent_sources:
  assumes "scanContent L cfg line st = Some st'"
  shows "sources (conv st') = sources (conv st)
       \<or> (extractSourceID L line \<noteq> -1
          \<and> sources (conv st') = AList.update (extractSourceID L line)
                (tileSourceOf L line (conv st)) (sources (conv st)))"
proof -
  let ?sub = "parseSubResource L line (scanState.currentSubResource st) (conv st)"
  have "sources ?sub = sources (conv st)
       \<or> (extractSourceID L line \<noteq> -1
          \<and> sources ?sub = AList.update (extractSourceID L line)
                (tileSourceOf L line (conv st)) (sources (conv st)))"
    unfolding parseSubResource_sources by presburger
  then show ?thesis using scanContent_cases[OF assms] by (elim disjE) simp_all
qed

lemma scanLine_sources:
  assumes "scanLine L cfg st line0 = Some st'"
  shows "sources (conv st') = sources (conv st)
       \<or> (extractSourceID L (TrimSpace L line0) \<noteq> -1
          \<and> sources (conv st') = AList.update (extractSourceID L (TrimSpace L line0))
                (tileSourceOf L (TrimSpace L line0) (conv st)) (sources (conv st)))"
proof -
  let ?line = "TrimSpace L line0"
  have "scanLine L cfg st line0 =
      (if ?line = [] \<or> HasPrefix ?line ''#'' then Some st
       else if HasPrefix ?line ''['' then Some (scanHeader L ?line st)
       else scanContent L cfg ?line st)"
    unfolding scanLine_def Let_def by simp
  then consider "st' = st" | "st' = scanHeader L ?line st" | "scanContent L cfg ?line st = Some st'"
    using assms by (metis option.inject)
  then show ?thesis
  proof cases
    case 1
    then show ?thesis by simp
  next
    case 2
    then show ?thesis by simp
  next
    case 3
    then show ?thesis using scanContent_sources by blast
  qed
qed

text \<open>Every line keeps the invariant of the table.\<close>

lemma tileSourceOf_ID [simp]: "TileSource.ID (tileSourceOf L line c) = extractSourceID L line"
  by (simp add: tileSourceOf_def Let_def)

lemma set_update_subset: "set (AList.update k v al) \<subseteq> insert (k, v) (set al)"
  by (induction al) auto

lemma sourcesInv_update:
  assumes "sourcesInv tbl" and "TileSource.ID v = k"
  shows "sourcesInv (AList.update k v tbl)"
  using assms set_update_subset[of k v tbl]
  unfolding sourcesInv_def by (auto simp: distinct_update)

lemma scanLine_sourcesInv:
  assumes "scanLine L cfg st line0 = Some st'" and "sourcesInv (sources (conv st))"
  shows "sourcesInv (sources (conv st'))"
  using scanLine_sources[OF assms(1)] assms(2) by (auto simp: sourcesInv_update)

lemma scanDocument_sourcesInv:
  assumes "scanDocument L cfg lines st = Some st'" and "sourcesInv (sources (conv st))"
  shows "sourcesInv (sources (conv st'))"
  using assms
proof (induction lines arbitrary: st)
  case Nil
  then show ?case by simp
next
  case (Cons line lines)
  then obtain st1 where s: "scanLine L cfg st line = Some st1"
    and r: "scanDocument L cfg lines st1 = Some st'"
    by (auto split: option.splits)
  show ?case by (rule Cons.IH[OF r scanLine_sourcesInv[OF s Cons.prems(2)]])
qed

text \<open>Sorting a table that has the invariant by id gives strictly ascending ids.\<close>

lemma distinct_map_insort_key:
  "distinct (map f (insort_key f x xs)) \<longleftrightarrow> f x \<notin> f ` set xs \<and> distinct (map f xs)"
  by (induction xs) (auto simp: set_insort_key)

lemma distinct_map_sort_key:
  "distinct (map f (sort_key f xs)) \<longleftrightarrow> distinct (map f xs)"
  by (induction xs) (simp_all add: distinct_map_insort_key)

lemma sorted_sources:
  assumes "sourcesInv tbl"
  shows "sorted_wrt (<) (map TileSource.ID (sort_key TileSource.ID (map snd tbl)))"
proof -
  let ?ids = "map TileSource.ID (sort_key TileSource.ID (map snd tbl))"
  have eq: "map TileSource.ID (map snd tbl) = map fst tbl"
    using assms unfolding sourcesInv_def by simp
  have d: "distinct (map TileSource.ID (map snd tbl))"
    unfolding eq using assms unfolding sourcesInv_def by simp
  have "distinct ?ids" using d by (simp only: distinct_map_sort_key)
  moreover have "sorted ?ids" by (rule sorted_sort_key)
  ultimately show ?thesis unfolding strict_sorted_iff by simp
qed

text \<open>A conversion that returns a map has had a first pass that returned one.\<close>

lemma ConvertTSCNToTileMap_returns:
  assumes "ConvertTSCNToTileMap L cfg filename c (w, g) = (Returned (Some data, err), w', g')"
  obtains d e w1 g1 where
    "convertTSCNToTileMap L cfg filename c (w, g) = (Returned (Some d, e), w1, g1)"
    and "TileSize (TileMap data) = TileSize (TileMap d)"
    and "TileSet (TileMap data) = TileSet (TileMap d)"
    and "Prefabs data = Prefabs d" and "Sprites data = Sprites d"
proof -
  obtain r w1 g1 where f: "convertTSCNToTileMap L cfg filename c (w, g) = (r, w1, g1)"
    by (metis prod_cases3)
  show ?thesis
  proof (cases r)
    case Panic
    then show ?thesis using assms f by (simp add: ConvertTSCNToTileMap_def)
  next
    case (Returned p)
    obtain dopt e where p: "p = (dopt, e)" by (cases p)
    show ?thesis
    proof (cases dopt)
      case None
      then show ?thesis using assms f Returned p by (simp add: ConvertTSCNToTileMap_def)
    next
      case (Some d)
      obtain ls w2 g2 where l: "parseLayersFromTSCN L cfg filename (w1, g1) = (ls, w2, g2)"
        by (metis prod_cases3)
      have first: "convertTSCNToTileMap L cfg filename c (w, g) = (Returned (Some d, e), w1, g1)"
        using f Returned p Some by simp
      have "TileSize (TileMap data) = TileSize (TileMap d) \<and> TileSet (TileMap data) = TileSet (TileMap d)
          \<and> Prefabs data = Prefabs d \<and> Sprites data = Sprites d"
        using assms unfolding ConvertTSCNToTileMap_def first
        by (auto simp: l Let_def split: if_splits)
      then show ?thesis using that[OF first] by blast
    qed
  qed
qed

lemma Parse_returns:
  assumes "Parse L cfg inputFile (w, g) = (Returned (Some data, err), w', g')"
  shows "ConvertTSCNToTileMap L cfg inputFile newTSCNConverter (w, g)
           = (Returned (Some data, err), w', g')"
  using assms by (cases "inputFile = ''''") (simp_all add: Parse_def)

text \<open>
  C5. In every map that \<open>Parse\<close> returns, the tile sources of the tile set are in
  strictly ascending order of their ids, in whatever order the \<open>sources/\<close> lines of the
  document declare them: the table of the sources has one entry for an id, and the list
  made of its entries is sorted by id.
\<close>

theorem sources_strictly_ascending:
  assumes "Parse L cfg inputFile (w, g) = (Returned (Some data, err), w', g')"
  shows "sorted_wrt (<) (map TileSource.ID (Sources (TileSet (TileMap data))))"
proof -
  from Parse_returns[OF assms] obtain d e w1 g1 where
    first: "convertTSCNToTileMap L cfg inputFile newTSCNConverter (w, g)
              = (Returned (Some d, e), w1, g1)"
    and ts: "TileSet (TileMap data) = TileSet (TileMap d)"
    by (rule ConvertTSCNToTileMap_returns)
  from first obtain content st c' prefabNodes where
    "files w inputFile = Some content"
    and "\<not> snd (scanLines (1024 * 1024) content)"
    and scan: "scanDocument L cfg (fst (scanLines (1024 * 1024) content))
         \<lparr>conv = newTSCNConverter, currentSection = [], currentSubResource = [], format = 0,
          layers = []\<rparr> = Some st"
    and "buildPrefabNodes L cfg (finishRemaining (conv st), w\<lparr>opened := opened w @ [inputFile]\<rparr>)
         = (prefabNodes, c', w1)"
    and d: "d = \<lparr>TileMap = \<lparr>Format = scanState.format st, TileSize = tilemapTileSize cfg,
                       TileSet = \<lparr>Sources = sort_key TileSource.ID
                                    (map snd (sources (finishRemaining (conv st))))\<rparr>,
                       Layers = scanState.layers st,
                       WorldTileSize = \<lparr>Width = 0, Height = 0\<rparr>\<rparr>,
           Decorators = decorators (finishRemaining (conv st)),
           Sprites = sprites (finishRemaining (conv st)), Prefabs = prefabNodes\<rparr>"
    and "e = None"
    and "g1 = g\<lparr>minTileX := 1000000, maxTileX := -1000000, minTileY := 1000000,
                 maxTileY := -1000000\<rparr>"
    by (rule convertTSCNToTileMap_success)
  have "sourcesInv (sources (newTSCNConverter :: 'a TSCNConverter))"
    by (simp add: sourcesInv_def newTSCNConverter_def)
  then have "sourcesInv (sources (conv st))"
    using scanDocument_sourcesInv[OF scan] by simp
  then have "sorted_wrt (<)
      (map TileSource.ID (sort_key TileSource.ID (map snd (sources (conv st)))))"
    by (rule sorted_sources)
  then show ?thesis by (simp add: ts d)
qed

text \<open>
  C10. In every map that \<open>Parse\<close> returns, the tile size of the tile map is the
  configured \<open>tilemapTileSize\<close>, whatever tile size the scan has derived from the
  polygon points of a physics line and written to the converter's \<open>tileSize\<close>.
\<close>

theorem tile_size_is_configured:
  assumes "Parse L cfg inputFile (w, g) = (Returned (Some data, err), w', g')"
  shows "TileSize (TileMap data) = tilemapTileSize cfg"
proof -
  from Parse_returns[OF assms] obtain d e w1 g1 where
    first: "convertTSCNToTileMap L cfg inputFile newTSCNConverter (w, g)
              = (Returned (Some d, e), w1, g1)"
    and ts: "TileSize (TileMap data) = TileSize (TileMap d)"
    by (rule ConvertTSCNToTileMap_returns)
  from first have "TileSize (TileMap d) = tilemapTileSize cfg"
    by (rule convertTSCNToTileMap_successE)
  then show ?thesis using ts by simp
qed

text \<open>
  Running the parser on \<open>atlasDocument\<close>: its lines, what the scan leaves behind, the
  first pass, the layer pass and \<open>Parse\<close>.
\<close>

lemma atlas_lines:
  "scanLines (1024 * 1024) atlasDocument =
    ([''[sub_resource type=\"TileSetAtlasSource\" id=\"A\"]'',
      ''0:0/0/physics_layer_0/polygon_0/points = PackedVector2Array(-8, -8, 8, -8, 8, 9, -8, 9)'',
      ''[sub_resource type=\"TileSet\" id=\"T\"]'',
      ''sources/3 = SubResource(\"A\")'',
      ''sources/0 = SubResource(\"A\")'',
      ''[node name=\"TileMap\" type=\"TileMap\"]'',
      ''layer_0/name = \"g\"'',
      ''layer_0/tile_data = PackedInt32Array(0, 0, 0, 65537, 0, 0)''], False)"
  by (simp add: scanLines_def dropCR_def atlasDocument_def string_defs)

lemma atlas_scan:
  "scanDocument runLib (defaultConfig runLib) (fst (scanLines (1024 * 1024) atlasDocument))
     \<lparr>conv = newTSCNConverter, currentSection = [], currentSubResource = [], format = 0,
      layers = []\<rparr> = Some atlasScanned"
  unfolding atlas_lines
  by (simp add: Let_def atlasScanned_def atlasSource_def atlasPoints_def scan_defs regex_defs
        string_defs lib_defs)

lemma atlas_first_pass:
  "convertTSCNToTileMap runLib (defaultConfig runLib) ''atlas.tscn'' newTSCNConverter
     (sampleWorld, zeroGlobals)
   = (Returned (Some (atlasData\<lparr>TileMap := (TileMap atlasData)
          \<lparr>Layers := scanState.layers atlasScanned,
           WorldTileSize := \<lparr>Width = 0, Height = 0\<rparr>\<rparr>\<rparr>), None),
     sampleWorld\<lparr>opened := [''atlas.tscn'']\<rparr>,
     \<lparr>minTileX = 1000000, maxTileX = -1000000, minTileY = 1000000, maxTileY = -1000000,
      tileTotalCount = 0\<rparr>)"
proof -
  have f: "files sampleWorld ''atlas.tscn'' = Some atlasDocument"
    by (simp add: sampleWorld_def)
  have s: "sort_key TileSource.ID (map snd (sources (conv atlasScanned)))
      = [atlasSource 0, atlasSource 3]"
    by (simp add: atlasScanned_def atlasSource_def)
  have n: "(1024 * 1024 :: nat) = 1048576"
    by simp
  have l: "\<not> snd (scanLines 1048576 atlasDocument)"
    using atlas_lines by simp
  have r: "finishRemaining (conv atlasScanned) = conv atlasScanned"
    by (simp add: finishRemaining_def atlasScanned_def)
  have e: "sprites (conv atlasScanned) = []" "decorators (conv atlasScanned) = []"
    by (simp_all add: atlasScanned_def)
  show ?thesis
    by (simp add: convertTSCNToTileMap_def osOpen_def Let_def f atlas_scan[unfolded n] l r s e
          buildPrefabNodes_def zeroGlobals_def)
       (simp add: atlasScanned_def atlasData_def sampleWorld_def defaultConfig_def)
qed

lemma atlas_layer_pass:
  "parseLayersFromTSCN runLib (defaultConfig runLib) ''atlas.tscn''
     (sampleWorld\<lparr>opened := [''atlas.tscn'']\<rparr>,
      \<lparr>minTileX = 1000000, maxTileX = -1000000, minTileY = 1000000, maxTileY = -1000000,
       tileTotalCount = 0\<rparr>)
   = (Some (Layers (TileMap atlasData)), sampleWorld\<lparr>opened := [''atlas.tscn'', ''atlas.tscn'']\<rparr>,
      \<lparr>minTileX = 0, maxTileX = 1, minTileY = 0, maxTileY = 1, tileTotalCount = 2\<rparr>)"
  by (simp add: parseLayersFromTSCN_def osOpen_def sampleWorld_def atlasDocument_def Let_def
        layer_defs defaultConfig_def string_defs lib_defs atlasData_def)

lemma atlas_parse:
  "Parse runLib (defaultConfig runLib) ''atlas.tscn'' (sampleWorld, zeroGlobals)
   = (Returned (Some atlasData, None), sampleWorld\<lparr>opened := [''atlas.tscn'', ''atlas.tscn'']\<rparr>,
      \<lparr>minTileX = 0, maxTileX = 1, minTileY = 0, maxTileY = 1, tileTotalCount = 2\<rparr>)"
  by (simp add: Parse_def ConvertTSCNToTileMap_def atlas_first_pass atlas_layer_pass wrap64_def
        go_rem_def atlasData_def)

text \<open>
  The two theorems at \<open>atlasDocument\<close>: the scan leaves source 3 before source 0 in the
  table and a tile size of sixteen by seventeen in the converter, and the map that
  \<open>Parse\<close> returns has source 0 before source 3 and a tile size of sixteen by sixteen.
\<close>

theorem sources_strictly_ascending_witness:
  "Parse runLib (defaultConfig runLib) ''atlas.tscn'' (sampleWorld, zeroGlobals)
     = (Returned (Some atlasData, None),
        sampleWorld\<lparr>opened := [''atlas.tscn'', ''atlas.tscn'']\<rparr>,
        \<lparr>minTileX = 0, maxTileX = 1, minTileY = 0, maxTileY = 1, tileTotalCount = 2\<rparr>)
   \<and> map fst (sources (conv atlasScanned)) = [3, 0]
   \<and> map TileSource.ID (Sources (TileSet (TileMap atlasData))) = [0, 3]
   \<and> sorted_wrt (<) (map TileSource.ID (Sources (TileSet (TileMap atlasData))))"
  using sources_strictly_ascending[OF atlas_parse]
  by (simp add: atlas_parse atlasData_def atlasScanned_def atlasSource_def)

theorem tile_size_is_configured_witness:
  "Parse runLib (defaultConfig runLib) ''atlas.tscn'' (sampleWorld, zeroGlobals)
     = (Returned (Some atlasData, None),
        sampleWorld\<lparr>opened := [''atlas.tscn'', ''atlas.tscn'']\<rparr>,
        \<lparr>minTileX = 0, maxTileX = 1, minTileY = 0, maxTileY = 1, tileTotalCount = 2\<rparr>)
   \<and> tileSize (conv atlasScanned) = \<lparr>Width = 16, Height = 17\<rparr>
   \<and> tilemapTileSize (defaultConfig runLib) = \<lparr>Width = 16, Height = 16\<rparr>
   \<and> TileSize (TileMap atlasData) = tilemapTileSize (defaultConfig runLib)"
  using tile_size_is_configured[OF atlas_parse]
  by (simp add: atlas_parse atlasScanned_def) (simp add: defaultConfig_def)

section \<open>The prefab cache: proofs\<close>

text \<open>
  A call of \<open>getPrefabInfo\<close> that finds the path in the cache, one that does not, and
  what a call does to the entries of the cache.
\<close>

lemma getPrefabInfo_hit:
  assumes "map_of (prefabCache c) p = Some i"
  shows "getPrefabInfo L cfg p (c, w) = (Inr i, c, w)"
  using assms by (simp add: getPrefabInfo_def)

lemma getPrefabInfo_miss:
  assumes "map_of (prefabCache c) p = None"
    and "getPrefabInfo L cfg p (c, w) = (Inr i, c1, w1)"
  shows "opened w1 = opened w @ [resolvePrefabPath L cfg p]"
    and "c1 = c\<lparr>prefabCache := AList.update p i (prefabCache c)\<rparr>"
  using assms
  by (auto simp: getPrefabInfo_def parsePrefabFile_def osOpen_def Let_def
      split: if_splits prod.splits sum.splits option.splits)

lemma getPrefabInfo_caches:
  assumes "getPrefabInfo L cfg p (c, w) = (Inr i, c1, w1)"
  shows "map_of (prefabCache c1) p = Some i"
proof (cases "map_of (prefabCache c) p")
  case None
  from getPrefabInfo_miss(2)[OF None assms] show ?thesis
    by (simp add: update_conv')
next
  case (Some j)
  then show ?thesis using assms by (simp add: getPrefabInfo_def)
qed

lemma getPrefabInfo_keeps:
  assumes "map_of (prefabCache c) p = Some i"
    and "getPrefabInfo L cfg q (c, w) = (r, c', w')"
  shows "map_of (prefabCache c') p = Some i"
proof (cases "map_of (prefabCache c) q")
  case None
  then have "q \<noteq> p" using assms(1) by auto
  then show ?thesis using assms None
    by (auto simp: getPrefabInfo_def Let_def update_conv' split: if_splits prod.splits sum.splits)
next
  case (Some j)
  then show ?thesis using assms by (simp add: getPrefabInfo_def)
qed

lemma later_calls_keep:
  assumes "foldl (\<lambda>cw q. snd (getPrefabInfo L cfg q cw)) (c1, w1) qs = (c2, w2)"
    and "map_of (prefabCache c1) p = Some i"
  shows "map_of (prefabCache c2) p = Some i"
  using assms
proof (induction qs arbitrary: c1 w1)
  case Nil
  then show ?case by simp
next
  case (Cons q qs)
  obtain r c' w' where g: "getPrefabInfo L cfg q (c1, w1) = (r, c', w')"
    by (metis prod_cases3)
  have "map_of (prefabCache c') p = Some i"
    by (rule getPrefabInfo_keeps[OF Cons.prems(2) g])
  moreover have "foldl (\<lambda>cw q. snd (getPrefabInfo L cfg q cw)) (c', w') qs = (c2, w2)"
    using Cons.prems(1) g by simp
  ultimately show ?case by (rule Cons.IH[rotated])
qed

text \<open>
  The calls that \<open>buildPrefabNodes\<close> makes are such a sequence: one call of
  \<open>getPrefabInfo\<close> for each sprite, with the path of the sprite.
\<close>

lemma buildPrefabNode_calls:
  "(bconv (buildPrefabNode L cfg st sprite), bworld (buildPrefabNode L cfg st sprite))
   = snd (getPrefabInfo L cfg (SpriteNode.Path sprite) (bconv st, bworld st))"
proof -
  obtain r c' w' where
    g: "getPrefabInfo L cfg (SpriteNode.Path sprite) (bconv st, bworld st) = (r, c', w')"
    by (metis prod_cases3)
  show ?thesis by (simp add: buildPrefabNode_def g Let_def)
qed

lemma buildPrefabNodes_calls:
  "(bconv (foldl (buildPrefabNode L cfg) st ss),
    bworld (foldl (buildPrefabNode L cfg) st ss))
   = foldl (\<lambda>cw q. snd (getPrefabInfo L cfg q cw)) (bconv st, bworld st)
       (map SpriteNode.Path ss)"
proof (induction ss arbitrary: st)
  case Nil
  then show ?case by simp
next
  case (Cons sprite ss)
  show ?case
    by (simp add: Cons.IH buildPrefabNode_calls)
qed

text \<open>
  C7. Within one converter, when a call of \<open>getPrefabInfo\<close> with a declared path returns
  an information, then after any further calls of \<open>getPrefabInfo\<close>, with whatever paths,
  a call with the same declared path returns the same information and leaves the
  converter and the world as they are: no file is opened and none is read. And when the
  first call found no entry for the path in the cache, it has opened the file that the
  path resolves to, once.
\<close>

theorem prefab_parsed_once:
  assumes "getPrefabInfo L cfg p (c, w) = (Inr i, c1, w1)"
    and "foldl (\<lambda>cw q. snd (getPrefabInfo L cfg q cw)) (c1, w1) qs = (c2, w2)"
  shows "(map_of (prefabCache c) p = None
            \<longrightarrow> opened w1 = opened w @ [resolvePrefabPath L cfg p])
       \<and> getPrefabInfo L cfg p (c2, w2) = (Inr i, c2, w2)"
proof -
  have "map_of (prefabCache c2) p = Some i"
    by (rule later_calls_keep[OF assms(2) getPrefabInfo_caches[OF assms(1)]])
  then have "getPrefabInfo L cfg p (c2, w2) = (Inr i, c2, w2)"
    by (rule getPrefabInfo_hit)
  then show ?thesis using getPrefabInfo_miss(1)[OF _ assms(1)] by blast
qed

text \<open>Running \<open>getPrefabInfo\<close> on the declared path of the tree prefab.\<close>

lemmas prefab_defs = prefabLine_def prefabExtResource_def prefabSubResource_def
  prefabRootName_def prefabCollisionNode_def prefabResetNode_def prefabShapeProps_def
  prefabSpriteProps_def prefabCollisionProps_def

lemma tree_first:
  "getPrefabInfo runLib prefabConfig ''res://scenes/tree.tscn'' (newTSCNConverter, prefabWorld)
   = (Inr treeInfo,
      newTSCNConverter\<lparr>prefabCache := [(''res://scenes/tree.tscn'', treeInfo)]\<rparr>,
      prefabWorld\<lparr>opened := [''prefabs/tree.tscn'']\<rparr>)"
  by (simp add: getPrefabInfo_def resolvePrefabPath_def parsePrefabFile_def osOpen_def
        scanLines_def dropCR_def Let_def prefabConfig_def prefabWorld_def treePrefab_def
        treeInfo_def prefab_defs newTSCNConverter_def defaultConfig_def zeroVec2_def
        regex_defs string_defs lib_defs)

lemma tree_later:
  "foldl (\<lambda>cw q. snd (getPrefabInfo runLib prefabConfig q cw))
     (newTSCNConverter\<lparr>prefabCache := [(''res://scenes/tree.tscn'', treeInfo)]\<rparr>,
      prefabWorld\<lparr>opened := [''prefabs/tree.tscn'']\<rparr>)
     [''res://rock.tscn'', ''res://scenes/tree.tscn'']
   = (newTSCNConverter\<lparr>prefabCache := [(''res://scenes/tree.tscn'', treeInfo)]\<rparr>,
      prefabWorld\<lparr>opened := [''prefabs/tree.tscn'', ''prefabs/rock.tscn'']\<rparr>)"
  by (simp add: getPrefabInfo_def resolvePrefabPath_def parsePrefabFile_def osOpen_def
        Let_def prefabConfig_def prefabWorld_def newTSCNConverter_def defaultConfig_def
        string_defs lib_defs)

text \<open>
  The theorem at the tree prefab: the first call finds no entry, opens
  \<open>prefabs/tree.tscn\<close> and stores what it has read; a call with another path, whose file
  cannot be opened, and a call with the same path follow; and one more call with the same
  path returns the stored information and leaves the converter and the list of opened
  files as they are.
\<close>

theorem prefab_parsed_once_witness:
  "getPrefabInfo runLib prefabConfig ''res://scenes/tree.tscn'' (newTSCNConverter, prefabWorld)
   = (Inr treeInfo,
      newTSCNConverter\<lparr>prefabCache := [(''res://scenes/tree.tscn'', treeInfo)]\<rparr>,
      prefabWorld\<lparr>opened := [''prefabs/tree.tscn'']\<rparr>)
   \<and> foldl (\<lambda>cw q. snd (getPrefabInfo runLib prefabConfig q cw))
       (newTSCNConverter\<lparr>prefabCache := [(''res://scenes/tree.tscn'', treeInfo)]\<rparr>,
        prefabWorld\<lparr>opened := [''prefabs/tree.tscn'']\<rparr>)
       [''res://rock.tscn'', ''res://scenes/tree.tscn'']
     = (newTSCNConverter\<lparr>prefabCache := [(''res://scenes/tree.tscn'', treeInfo)]\<rparr>,
        prefabWorld\<lparr>opened := [''prefabs/tree.tscn'', ''prefabs/rock.tscn'']\<rparr>)
   \<and> map_of (prefabCache (newTSCNConverter :: int TSCNConverter)) ''res://scenes/tree.tscn''
     = None
   \<and> resolvePrefabPath runLib prefabConfig ''res://scenes/tree.tscn'' = ''prefabs/tree.tscn''
   \<and> getPrefabInfo runLib prefabConfig ''res://scenes/tree.tscn''
       (newTSCNConverter\<lparr>prefabCache := [(''res://scenes/tree.tscn'', treeInfo)]\<rparr>,
        prefabWorld\<lparr>opened := [''prefabs/tree.tscn'', ''prefabs/rock.tscn'']\<rparr>)
     = (Inr treeInfo,
        newTSCNConverter\<lparr>prefabCache := [(''res://scenes/tree.tscn'', treeInfo)]\<rparr>,
        prefabWorld\<lparr>opened := [''prefabs/tree.tscn'', ''prefabs/rock.tscn'']\<rparr>)"
proof -
  have n: "map_of (prefabCache (newTSCNConverter :: int TSCNConverter)) ''res://scenes/tree.tscn''
     = None"
    by (simp add: newTSCNConverter_def)
  have r: "resolvePrefabPath runLib prefabConfig ''res://scenes/tree.tscn'' = ''prefabs/tree.tscn''"
    by (simp add: resolvePrefabPath_def prefabConfig_def defaultConfig_def Let_def
          string_defs lib_defs)
  show ?thesis
    using prefab_parsed_once[OF tree_first tree_later] tree_first tree_later n r
    by simp
qed

end
